theory Spec2Isabelle
  imports Main
begin

section \<open>The balance ledger of \<^verbatim>\<open>server.js\<close>\<close>

text \<open>
  The server keeps one JSON file, \<^verbatim>\<open>balances.json\<close>, holding
  \<^verbatim>\<open>{ players: { <username>: { balance, history: [...] } } }\<close>.
  Every route handler reloads the file, works on the parsed object and writes the whole
  object back. The module variable \<^verbatim>\<open>dataCache\<close> is overwritten by
  \<^verbatim>\<open>loadData()\<close> at the start of every handler that reads it, so between two
  requests the state of the service is the file, together with whatever the handlers
  left on objects of the JavaScript runtime (see \<open>world\<close> below).

  Numbers. JavaScript numbers are doubles. The model uses \<open>int\<close>: it describes the
  server as long as every balance and amount is an integer of magnitude up to \<open>2^53\<close>
  (\<open>exact_number\<close>), where double arithmetic on integers is exact.

  Strings. A JavaScript string is a sequence of UTF-16 code units. The model uses
  \<open>string\<close>, that is code units below 256; the white space of that range is the one
  \<^verbatim>\<open>trim\<close> and \<^verbatim>\<open>parseInt\<close> skip.
\<close>

subsection \<open>Strings: \<^verbatim>\<open>trim\<close> and \<^verbatim>\<open>parseInt(value, 10)\<close>\<close>

text \<open>White space and line terminators of ECMAScript among the code units below 256:
  TAB, LF, VT, FF, CR, SPACE and NO-BREAK SPACE.\<close>

definition isWhiteSpace :: "char \<Rightarrow> bool" where
  "isWhiteSpace c \<longleftrightarrow> of_char c \<in> set [9, 10, 11, 12, 13, 32, 160 :: nat]"

definition isDigit :: "char \<Rightarrow> bool" where
  "isDigit c \<longleftrightarrow> 48 \<le> (of_char c :: nat) \<and> (of_char c :: nat) \<le> 57"

definition digitValue :: "char \<Rightarrow> int" where
  "digitValue c = int (of_char c) - 48"

definition decimal :: "string \<Rightarrow> int" where
  "decimal ds = foldl (\<lambda>n c. 10 * n + digitValue c) 0 ds"

text \<open>\<^verbatim>\<open>String.prototype.trim\<close>: white space is removed at both ends.\<close>

definition trim :: "string \<Rightarrow> string" where
  "trim s = rev (dropWhile isWhiteSpace (rev (dropWhile isWhiteSpace s)))"

text \<open>The integers that are doubles without gap: those of magnitude up to \<open>2^53\<close>.\<close>

definition exact_number :: "int \<Rightarrow> bool" where
  "exact_number n \<longleftrightarrow> - (2 ^ 53) \<le> n \<and> n \<le> 2 ^ 53"

text \<open>
  \<^verbatim>\<open>parseInt(value, 10)\<close> on the string \<open>s\<close> that \<^verbatim>\<open>value\<close> converts to: leading
  white space is skipped, one sign is read, then the longest run of decimal digits;
  the rest of the string is ignored. No digit at all gives \<^verbatim>\<open>NaN\<close>, here \<open>None\<close>.
  With radix 10 no \<^verbatim>\<open>0x\<close> prefix is recognised.

  ECMAScript computes the mathematical integer of the signed digit run and returns the
  Number for it. \<open>parseInt10\<close> is that mathematical integer. Every integer of magnitude
  up to \<open>2^53\<close> is a double, so there the Number returned is this integer
  (\<open>exact_number\<close>). Beyond, the Number is a double near it, or an infinity, of the same
  sign: the comparisons \<^verbatim>\<open>< 0\<close> and \<^verbatim>\<open><= 0\<close> of the handlers come out as on the
  integer, and the properties below that depend on more than the sign of a parsed number
  are stated for exact numbers.
\<close>

definition parseInt10 :: "string \<Rightarrow> int option" where
  "parseInt10 s =
     (let t = dropWhile isWhiteSpace s;
          sign = (if t \<noteq> [] \<and> hd t = CHR ''-'' then - 1 else 1 :: int);
          u = (if t \<noteq> [] \<and> (hd t = CHR ''+'' \<or> hd t = CHR ''-'') then tl t else t);
          z = takeWhile isDigit u
      in if z = [] then None else Some (sign * decimal z))"

text \<open>
  \<^verbatim>\<open>
  function parseInteger(value) {
    const parsed = parseInt(value, 10);
    return Number.isNaN(parsed) ? null : parsed;
  }
  \<close>
  The argument is the string the request field converts to (\<^verbatim>\<open>"200"\<close> for the JSON number
  200, \<^verbatim>\<open>"undefined"\<close> for a missing field); \<^verbatim>\<open>null\<close> is \<open>None\<close>.
\<close>

definition parseInteger :: "string \<Rightarrow> int option" where
  "parseInteger v = (case parseInt10 v of None \<Rightarrow> None | Some parsed \<Rightarrow> Some parsed)"

subsection \<open>The data model\<close>

record entry =
  ts :: string
  game :: string
  delta :: int
  desc :: string

record player =
  balance :: int
  history :: "entry list"

type_synonym players = "string \<rightharpoonup> player"

text \<open>
  The backing file: absent, not parseable by \<^verbatim>\<open>JSON.parse\<close>, or a JSON document.
  Of a document the model keeps its \<^verbatim>\<open>players\<close> object; \<open>Document None\<close> is a document
  whose \<^verbatim>\<open>players\<close> is missing or not an object. A player record in the file has the
  shape the server writes.
\<close>

datatype disk = Missing | Unparseable | Document "players option"

text \<open>
  What \<^verbatim>\<open>x.balance\<close> evaluates to on an object that is not a player record:
  \<^verbatim>\<open>undefined\<close>, \<^verbatim>\<open>NaN\<close> or a number.
\<close>

datatype jsnum = Undefined | NaN | Num int

text \<open>
  The state between requests. \<open>writes\<close> counts the calls of \<^verbatim>\<open>fs.writeFileSync\<close>.

  \<^verbatim>\<open>data.players\<close> is an ordinary object, so \<^verbatim>\<open>data.players[username]\<close> also finds the
  properties it inherits from \<^verbatim>\<open>Object.prototype\<close>. A handler that is handed such an
  inherited value as its \<^verbatim>\<open>player\<close> assigns to its \<^verbatim>\<open>balance\<close>; these assignments
  outlive the request. \<open>proto_balance\<close> is \<^verbatim>\<open>Object.prototype.balance\<close> and
  \<open>builtin_balance f\<close> the own \<^verbatim>\<open>balance\<close> of the function \<^verbatim>\<open>Object.prototype[f]\<close>;
  \<open>Undefined\<close> stands for no such property (the handlers never assign \<^verbatim>\<open>undefined\<close>).
\<close>

record world =
  disk :: disk
  writes :: nat
  proto_balance :: jsnum
  builtin_balance :: "string \<Rightarrow> jsnum"

text \<open>The function-valued properties of \<^verbatim>\<open>Object.prototype\<close> in Node.js; the accessor
  \<^verbatim>\<open>__proto__\<close> is treated apart.\<close>

definition object_prototype_functions :: "string list" where
  "object_prototype_functions =
     [''constructor'', ''__defineGetter__'', ''__defineSetter__'', ''hasOwnProperty'',
      ''__lookupGetter__'', ''__lookupSetter__'', ''isPrototypeOf'',
      ''propertyIsEnumerable'', ''toString'', ''valueOf'', ''toLocaleString'']"

text \<open>The value of \<^verbatim>\<open>data.players[username]\<close>.\<close>

datatype handle =
    OwnRecord player
  | ObjectPrototype
  | BuiltinFunction string
  | Primitive jsnum

definition players_get :: "world \<Rightarrow> players \<Rightarrow> string \<Rightarrow> handle" where
  "players_get w ps username =
     (case ps username of
        Some p \<Rightarrow> OwnRecord p
      | None \<Rightarrow>
          if username = ''__proto__'' then ObjectPrototype
          else if username \<in> set object_prototype_functions then BuiltinFunction username
          else if username = ''balance'' then Primitive (proto_balance w)
          else Primitive Undefined)"

text \<open>JavaScript truthiness: objects and functions are truthy; \<^verbatim>\<open>undefined\<close>, \<^verbatim>\<open>NaN\<close>
  and 0 are falsy.\<close>

fun truthy :: "handle \<Rightarrow> bool" where
  "truthy (OwnRecord p) = True"
| "truthy ObjectPrototype = True"
| "truthy (BuiltinFunction f) = True"
| "truthy (Primitive (Num n)) = (n \<noteq> 0)"
| "truthy (Primitive v) = False"

text \<open>Reading \<^verbatim>\<open>player.balance\<close> follows the prototype chain up to
  \<^verbatim>\<open>Object.prototype\<close>.\<close>

fun read_balance :: "world \<Rightarrow> handle \<Rightarrow> jsnum" where
  "read_balance w (OwnRecord p) = Num (balance p)"
| "read_balance w ObjectPrototype = proto_balance w"
| "read_balance w (BuiltinFunction f) =
     (case builtin_balance w f of Undefined \<Rightarrow> proto_balance w | v \<Rightarrow> v)"
| "read_balance w (Primitive v) = proto_balance w"

text \<open>Assigning \<^verbatim>\<open>player.balance\<close> when \<^verbatim>\<open>player\<close> is not a record of the store: an own
  property of the object; on a primitive number the assignment has no effect (the module
  is not in strict mode).\<close>

fun assign_foreign :: "handle \<Rightarrow> jsnum \<Rightarrow> world \<Rightarrow> world" where
  "assign_foreign ObjectPrototype v w = w\<lparr>proto_balance := v\<rparr>"
| "assign_foreign (BuiltinFunction f) v w = w\<lparr>builtin_balance := (builtin_balance w)(f := v)\<rparr>"
| "assign_foreign h v w = w"

text \<open>\<^verbatim>\<open>x - n\<close>, \<^verbatim>\<open>x + n\<close> and \<^verbatim>\<open>x < 0\<close> for \<open>x\<close> that may be \<^verbatim>\<open>undefined\<close> or \<^verbatim>\<open>NaN\<close>.\<close>

fun js_minus :: "jsnum \<Rightarrow> int \<Rightarrow> jsnum" where
  "js_minus (Num b) n = Num (b - n)"
| "js_minus v n = NaN"

fun js_plus :: "jsnum \<Rightarrow> int \<Rightarrow> jsnum" where
  "js_plus (Num b) n = Num (b + n)"
| "js_plus v n = NaN"

fun js_negative :: "jsnum \<Rightarrow> bool" where
  "js_negative (Num b) = (b < 0)"
| "js_negative v = False"

subsection \<open>File access\<close>

definition writeFileSync :: "disk \<Rightarrow> world \<Rightarrow> world" where
  "writeFileSync d w = w\<lparr>disk := d, writes := Suc (writes w)\<rparr>"

text \<open>
  \<^verbatim>\<open>
  function ensureDataFile() {
    if (!fs.existsSync(DATA_FILE)) {
      const initial = { players: {} };
      fs.writeFileSync(DATA_FILE, JSON.stringify(initial, null, 2));
    }
  }
  \<close>
\<close>

definition ensureDataFile :: "world \<Rightarrow> world" where
  "ensureDataFile w =
     (if disk w = Missing then writeFileSync (Document (Some Map.empty)) w else w)"

text \<open>
  \<^verbatim>\<open>loadData\<close>: a file that does not parse is overwritten with the empty store; a
  document without a usable \<^verbatim>\<open>players\<close> gets an empty one in memory only. After
  \<^verbatim>\<open>ensureDataFile\<close> the file exists; the \<open>Missing\<close> case below is never taken
  (lemma \<open>ensureDataFile_not_Missing\<close>).
\<close>

definition loadData :: "world \<Rightarrow> players \<times> world" where
  "loadData w =
     (let w1 = ensureDataFile w
      in case disk w1 of
           Document (Some ps) \<Rightarrow> (ps, w1)
         | Document None \<Rightarrow> (Map.empty, w1)
         | Unparseable \<Rightarrow> (Map.empty, writeFileSync (Document (Some Map.empty)) w1)
         | Missing \<Rightarrow> (Map.empty, w1))"

definition saveData :: "players \<Rightarrow> world \<Rightarrow> world" where
  "saveData ps w = writeFileSync (Document (Some ps)) w"

subsection \<open>Players\<close>

text \<open>\<^verbatim>\<open>function appendHistory(player, entry) { player.history.push(entry); }\<close>\<close>

definition appendHistory :: "player \<Rightarrow> entry \<Rightarrow> player" where
  "appendHistory p e = p\<lparr>history := history p @ [e]\<rparr>"

definition created_entry :: "string \<Rightarrow> entry" where
  "created_entry now =
     \<lparr>ts = now, game = ''system'', delta = 0, desc = ''auto-created profile''\<rparr>"

text \<open>
  \<^verbatim>\<open>
  function getOrCreatePlayer(data, username) {
    if (!data.players[username]) {
      data.players[username] = { balance: 1000, history: [] };
      appendHistory(data.players[username], { ts: ..., game: 'system', delta: 0,
                                               desc: 'auto-created profile' });
      saveData(data);
    }
    return data.players[username];
  }
  \<close>
  \<open>now\<close> is the value of \<^verbatim>\<open>new Date().toISOString()\<close>. The result is the value of
  \<^verbatim>\<open>data.players[username]\<close> with the updated store and world.
\<close>

definition getOrCreatePlayer ::
  "string \<Rightarrow> string \<Rightarrow> players \<times> world \<Rightarrow> handle \<times> players \<times> world" where
  "getOrCreatePlayer now username = (\<lambda>(ps, w).
     if \<not> truthy (players_get w ps username) then
       let ps' = ps(username \<mapsto>
                   appendHistory \<lparr>balance = 1000, history = []\<rparr> (created_entry now));
           w' = saveData ps' w
       in (players_get w' ps' username, ps', w')
     else (players_get w ps username, ps, w))"

subsection \<open>Responses\<close>

text \<open>
  The JSON bodies the handlers send. \<open>Failure code\<close> is \<^verbatim>\<open>{ok:false, error:code}\<close>,
  \<open>Done\<close> is \<^verbatim>\<open>{ok:true}\<close>, \<open>NewBalance b\<close> is \<^verbatim>\<open>{ok:true, balance:b}\<close>,
  \<open>Profile u b\<close> is \<^verbatim>\<open>{ok:true, username:u, balance:b}\<close> and \<open>Detail u b h\<close> adds
  \<^verbatim>\<open>history\<close> (\<open>None\<close> when \<^verbatim>\<open>player.history\<close> is \<^verbatim>\<open>undefined\<close>).
  \<open>Reply status body\<close> is a response; \<open>TypeError\<close> is an exception that leaves the
  handler, which Express answers with status 500.
\<close>

datatype body =
    Failure string
  | Done
  | NewBalance int
  | Profile string jsnum
  | Detail string jsnum "entry list option"

datatype outcome = Reply nat body | TypeError


subsection \<open>The operations behind the routes\<close>

text \<open>
  Each route handler validates its input and then runs the part modelled here, on a
  trimmed user name and parsed numbers. \<open>t0\<close> is the clock reading of
  \<^verbatim>\<open>getOrCreatePlayer\<close>, \<open>t\<close> the one of the handler itself.

  \<^verbatim>\<open>player\<close> is a reference into \<^verbatim>\<open>data.players\<close>: when it is a record of the store,
  the handler's assignments change the store under \<^verbatim>\<open>username\<close>. When it is an inherited
  value, \<^verbatim>\<open>player.history\<close> is \<^verbatim>\<open>undefined\<close> and \<^verbatim>\<open>appendHistory\<close> throws a
  \<^verbatim>\<open>TypeError\<close>, after the assignment to \<^verbatim>\<open>player.balance\<close> and before
  \<^verbatim>\<open>saveData\<close>.
\<close>

text \<open>\<^verbatim>\<open>GET /api/profile\<close>, lines 75 to 78.\<close>

definition getProfile :: "string \<Rightarrow> string \<Rightarrow> world \<Rightarrow> outcome \<times> world" where
  "getProfile t0 username w =
     (let (ps, w1) = loadData w;
          (h, ps2, w2) = getOrCreatePlayer t0 username (ps, w1);
          w3 = saveData ps2 w2
      in (Reply 200 (Profile username (read_balance w3 h)), w3))"

text \<open>\<^verbatim>\<open>POST /api/profile/save\<close>, lines 92 to 102.\<close>

definition recordSave :: "string \<Rightarrow> string \<Rightarrow> string \<Rightarrow> int \<Rightarrow> world \<Rightarrow> outcome \<times> world" where
  "recordSave t0 t username balanceValue w =
     (let (ps, w1) = loadData w;
          (h, ps2, w2) = getOrCreatePlayer t0 username (ps, w1)
      in case h of
           OwnRecord p \<Rightarrow>
             let p' = appendHistory (p\<lparr>balance := balanceValue\<rparr>)
                        \<lparr>ts = t, game = ''manual-save'', delta = 0, desc = ''session save''\<rparr>
             in (Reply 200 Done, saveData (ps2(username \<mapsto> p')) w2)
         | _ \<Rightarrow> (TypeError, assign_foreign h (Num balanceValue) w2))"

text \<open>\<^verbatim>\<open>POST /api/game/charge\<close>, lines 118 to 132.\<close>

definition charge ::
  "string \<Rightarrow> string \<Rightarrow> string \<Rightarrow> string \<Rightarrow> int \<Rightarrow> string \<Rightarrow> world \<Rightarrow> outcome \<times> world" where
  "charge t0 t username g amountValue d w =
     (let (ps, w1) = loadData w;
          (h, ps2, w2) = getOrCreatePlayer t0 username (ps, w1)
      in case h of
           OwnRecord p \<Rightarrow>
             if balance p - amountValue < 0 then
               (Reply 200 (Failure ''INSUFFICIENT_FUNDS''), w2)
             else
               let p' = appendHistory (p\<lparr>balance := balance p - amountValue\<rparr>)
                          \<lparr>ts = t, game = g, delta = - amountValue, desc = d\<rparr>
               in (Reply 200 (NewBalance (balance p')), saveData (ps2(username \<mapsto> p')) w2)
         | _ \<Rightarrow>
             if js_negative (js_minus (read_balance w2 h) amountValue) then
               (Reply 200 (Failure ''INSUFFICIENT_FUNDS''), w2)
             else (TypeError, assign_foreign h (js_minus (read_balance w2 h) amountValue) w2))"

text \<open>\<^verbatim>\<open>POST /api/game/payout\<close>, lines 148 to 158.\<close>

definition payout ::
  "string \<Rightarrow> string \<Rightarrow> string \<Rightarrow> string \<Rightarrow> int \<Rightarrow> string \<Rightarrow> world \<Rightarrow> outcome \<times> world" where
  "payout t0 t username g amountValue d w =
     (let (ps, w1) = loadData w;
          (h, ps2, w2) = getOrCreatePlayer t0 username (ps, w1)
      in case h of
           OwnRecord p \<Rightarrow>
             let p' = appendHistory (p\<lparr>balance := balance p + amountValue\<rparr>)
                        \<lparr>ts = t, game = g, delta = amountValue, desc = d\<rparr>
             in (Reply 200 (NewBalance (balance p')), saveData (ps2(username \<mapsto> p')) w2)
         | _ \<Rightarrow> (TypeError, assign_foreign h (js_plus (read_balance w2 h) amountValue) w2))"

text \<open>\<^verbatim>\<open>GET /api/admin/user-detail\<close>, lines 175 to 183.\<close>

definition getUserDetail :: "string \<Rightarrow> string \<Rightarrow> world \<Rightarrow> outcome \<times> world" where
  "getUserDetail t0 username w =
     (let (ps, w1) = loadData w;
          (h, ps2, w2) = getOrCreatePlayer t0 username (ps, w1);
          w3 = saveData ps2 w2
      in (Reply 200 (Detail username (read_balance w3 h)
                       (case h of OwnRecord p \<Rightarrow> Some (history p) | _ \<Rightarrow> None)), w3))"

text \<open>\<^verbatim>\<open>POST /api/admin/set-balance\<close>, lines 198 to 209.\<close>

definition adminSetBalance ::
  "string \<Rightarrow> string \<Rightarrow> string \<Rightarrow> int \<Rightarrow> string \<Rightarrow> world \<Rightarrow> outcome \<times> world" where
  "adminSetBalance t0 t username balanceValue note w =
     (let (ps, w1) = loadData w;
          (h, ps2, w2) = getOrCreatePlayer t0 username (ps, w1)
      in case h of
           OwnRecord p \<Rightarrow>
             let dl = balanceValue - balance p;
                 p' = appendHistory (p\<lparr>balance := balanceValue\<rparr>)
                        \<lparr>ts = t, game = ''admin-adjust'', delta = dl, desc = note\<rparr>
             in (Reply 200 (NewBalance (balance p')), saveData (ps2(username \<mapsto> p')) w2)
         | _ \<Rightarrow> (TypeError, assign_foreign h (Num balanceValue) w2))"

text \<open>\<^verbatim>\<open>POST /api/admin/delete-user\<close>, lines 217 to 222. \<^verbatim>\<open>delete\<close> removes an own
  property and does nothing when there is none.\<close>

definition adminDelete :: "string \<Rightarrow> world \<Rightarrow> outcome \<times> world" where
  "adminDelete username w =
     (let (ps, w1) = loadData w
      in if truthy (players_get w1 ps username)
         then (Reply 200 Done, saveData (ps(username := None)) w1)
         else (Reply 200 Done, w1))"

subsection \<open>The route handlers\<close>

text \<open>
  A text field of a request (\<^verbatim>\<open>req.body.username\<close>, \<^verbatim>\<open>req.query.username\<close>,
  \<^verbatim>\<open>game\<close>, \<^verbatim>\<open>desc\<close>, \<^verbatim>\<open>note\<close>) holds any JSON value. The handlers read it as
  \<^verbatim>\<open>(req.body.f || '').trim()\<close>: a falsy value (missing, \<^verbatim>\<open>null\<close>, \<^verbatim>\<open>false\<close>, 0, the
  empty string) becomes the empty string, a string is trimmed, and a truthy value that
  is not a string (a number, \<^verbatim>\<open>true\<close>, an array, an object) has no \<^verbatim>\<open>trim\<close>, so the
  call throws a \<^verbatim>\<open>TypeError\<close>. \<open>trimmed\<close> is that expression, \<open>None\<close> when it throws.
\<close>

datatype field = Falsy | Text string | NonString

fun trimmed :: "field \<Rightarrow> string option" where
  "trimmed Falsy = Some []"
| "trimmed (Text s) = Some (trim s)"
| "trimmed NonString = None"

text \<open>
  A numeric field is given as the string its value converts to, which is what
  \<^verbatim>\<open>parseInt\<close> reads. \<^verbatim>\<open>x || dflt\<close> on a trimmed string is \<open>orDefault\<close>. Each handler
  first evaluates its text fields in the order of the source, and a \<^verbatim>\<open>TypeError\<close> there
  ends the request before any check; then it checks the user name, then the number. A
  failed check answers with status 400. Neither a \<^verbatim>\<open>TypeError\<close> at this point nor a
  failed check touches the file.
\<close>

definition orDefault :: "string \<Rightarrow> string \<Rightarrow> string" where
  "orDefault s dflt = (if s = [] then dflt else s)"

definition get_profile :: "string \<Rightarrow> field \<Rightarrow> world \<Rightarrow> outcome \<times> world" where
  "get_profile t0 username_field w =
     (case trimmed username_field of
        None \<Rightarrow> (TypeError, w)
      | Some username \<Rightarrow>
          if username = [] then (Reply 400 (Failure ''USERNAME_REQUIRED''), w)
          else getProfile t0 username w)"

definition post_profile_save ::
  "string \<Rightarrow> string \<Rightarrow> field \<Rightarrow> string \<Rightarrow> world \<Rightarrow> outcome \<times> world" where
  "post_profile_save t0 t username_field balance_field w =
     (case trimmed username_field of
        None \<Rightarrow> (TypeError, w)
      | Some username \<Rightarrow>
          let balanceValue = parseInteger balance_field
          in if username = [] then (Reply 400 (Failure ''USERNAME_REQUIRED''), w)
             else case balanceValue of
                    None \<Rightarrow> (Reply 400 (Failure ''INVALID_BALANCE''), w)
                  | Some b \<Rightarrow>
                      if b < 0 then (Reply 400 (Failure ''INVALID_BALANCE''), w)
                      else recordSave t0 t username b w)"

definition post_game_charge ::
  "string \<Rightarrow> string \<Rightarrow> field \<Rightarrow> field \<Rightarrow> string \<Rightarrow> field \<Rightarrow> world \<Rightarrow> outcome \<times> world" where
  "post_game_charge t0 t username_field game_field amount_field desc_field w =
     (case trimmed username_field of
        None \<Rightarrow> (TypeError, w)
      | Some username \<Rightarrow>
     (case trimmed game_field of
        None \<Rightarrow> (TypeError, w)
      | Some game_text \<Rightarrow>
          let g = orDefault game_text ''unknown'';
              amountValue = parseInteger amount_field
          in
     (case trimmed desc_field of
        None \<Rightarrow> (TypeError, w)
      | Some desc_text \<Rightarrow>
          let d = orDefault desc_text ''game charge''
          in if username = [] then (Reply 400 (Failure ''USERNAME_REQUIRED''), w)
             else case amountValue of
                    None \<Rightarrow> (Reply 400 (Failure ''INVALID_AMOUNT''), w)
                  | Some a \<Rightarrow>
                      if a \<le> 0 then (Reply 400 (Failure ''INVALID_AMOUNT''), w)
                      else charge t0 t username g a d w)))"

definition post_game_payout ::
  "string \<Rightarrow> string \<Rightarrow> field \<Rightarrow> field \<Rightarrow> string \<Rightarrow> field \<Rightarrow> world \<Rightarrow> outcome \<times> world" where
  "post_game_payout t0 t username_field game_field amount_field desc_field w =
     (case trimmed username_field of
        None \<Rightarrow> (TypeError, w)
      | Some username \<Rightarrow>
     (case trimmed game_field of
        None \<Rightarrow> (TypeError, w)
      | Some game_text \<Rightarrow>
          let g = orDefault game_text ''unknown'';
              amountValue = parseInteger amount_field
          in
     (case trimmed desc_field of
        None \<Rightarrow> (TypeError, w)
      | Some desc_text \<Rightarrow>
          let d = orDefault desc_text ''game payout''
          in if username = [] then (Reply 400 (Failure ''USERNAME_REQUIRED''), w)
             else case amountValue of
                    None \<Rightarrow> (Reply 400 (Failure ''INVALID_AMOUNT''), w)
                  | Some a \<Rightarrow>
                      if a \<le> 0 then (Reply 400 (Failure ''INVALID_AMOUNT''), w)
                      else payout t0 t username g a d w)))"

definition get_admin_user_detail :: "string \<Rightarrow> field \<Rightarrow> world \<Rightarrow> outcome \<times> world" where
  "get_admin_user_detail t0 username_field w =
     (case trimmed username_field of
        None \<Rightarrow> (TypeError, w)
      | Some username \<Rightarrow>
          if username = [] then (Reply 400 (Failure ''USERNAME_REQUIRED''), w)
          else getUserDetail t0 username w)"

definition post_admin_set_balance ::
  "string \<Rightarrow> string \<Rightarrow> field \<Rightarrow> string \<Rightarrow> field \<Rightarrow> world \<Rightarrow> outcome \<times> world" where
  "post_admin_set_balance t0 t username_field balance_field note_field w =
     (case trimmed username_field of
        None \<Rightarrow> (TypeError, w)
      | Some username \<Rightarrow>
          let balanceValue = parseInteger balance_field
          in
     (case trimmed note_field of
        None \<Rightarrow> (TypeError, w)
      | Some note_text \<Rightarrow>
          let note = orDefault note_text ''admin adjustment''
          in if username = [] then (Reply 400 (Failure ''USERNAME_REQUIRED''), w)
             else case balanceValue of
                    None \<Rightarrow> (Reply 400 (Failure ''INVALID_BALANCE''), w)
                  | Some b \<Rightarrow>
                      if b < 0 then (Reply 400 (Failure ''INVALID_BALANCE''), w)
                      else adminSetBalance t0 t username b note w))"

definition post_admin_delete_user :: "field \<Rightarrow> world \<Rightarrow> outcome \<times> world" where
  "post_admin_delete_user username_field w =
     (case trimmed username_field of
        None \<Rightarrow> (TypeError, w)
      | Some username \<Rightarrow>
          if username = [] then (Reply 400 (Failure ''USERNAME_REQUIRED''), w)
          else adminDelete username w)"

subsection \<open>Sequences of requests\<close>

text \<open>A request carries its fields and the clock readings of its handling. The listing
  route \<^verbatim>\<open>GET /api/admin/users\<close> changes nothing but what \<^verbatim>\<open>loadData\<close> changes.\<close>

datatype request =
    GetProfile string field
  | PostSave string string field string
  | PostCharge string string field field string field
  | PostPayout string string field field string field
  | GetUsers
  | GetUserDetail string field
  | PostSetBalance string string field string field
  | PostDeleteUser field

fun serve :: "request \<Rightarrow> world \<Rightarrow> world" where
  "serve (GetProfile t0 u) w = snd (get_profile t0 u w)"
| "serve (PostSave t0 t u b) w = snd (post_profile_save t0 t u b w)"
| "serve (PostCharge t0 t u g a d) w = snd (post_game_charge t0 t u g a d w)"
| "serve (PostPayout t0 t u g a d) w = snd (post_game_payout t0 t u g a d w)"
| "serve GetUsers w = snd (loadData w)"
| "serve (GetUserDetail t0 u) w = snd (get_admin_user_detail t0 u w)"
| "serve (PostSetBalance t0 t u b n) w = snd (post_admin_set_balance t0 t u b n w)"
| "serve (PostDeleteUser u) w = snd (post_admin_delete_user u w)"

fun serve_all :: "request list \<Rightarrow> world \<Rightarrow> world" where
  "serve_all [] w = w"
| "serve_all (r # rs) w = serve_all rs (serve r w)"

text \<open>The store a request finds: the players of the document on disk; a missing or
  unusable file holds none.\<close>

definition stored :: "world \<Rightarrow> players" where
  "stored w = (case disk w of Document (Some ps) \<Rightarrow> ps | _ \<Rightarrow> Map.empty)"

text \<open>The state of a freshly started server over an empty store.\<close>

definition fresh :: world where
  "fresh = \<lparr>disk = Document (Some Map.empty), writes = 0,
            proto_balance = Undefined, builtin_balance = (\<lambda>f. Undefined)\<rparr>"

text \<open>A server whose store holds one player, \<open>bob\<close>, with 30 credits.\<close>

definition bob :: player where
  "bob = \<lparr>balance = 30, history = [created_entry ''2024-05-01T10:00:00.000Z'']\<rparr>"

definition bob_world :: world where
  "bob_world = \<lparr>disk = Document (Some [''bob'' \<mapsto> bob]), writes = 7,
                proto_balance = Undefined, builtin_balance = (\<lambda>f. Undefined)\<rparr>"

subsection \<open>Vocabulary of the properties\<close>

text \<open>A user name for which \<^verbatim>\<open>data.players[username]\<close> is truthy even when the store
  has no record under it: the value is found on the prototype chain.\<close>

definition inherited :: "world \<Rightarrow> string \<Rightarrow> bool" where
  "inherited w username \<longleftrightarrow>
     username = ''__proto__'' \<or> username \<in> set object_prototype_functions \<or>
     (username = ''balance'' \<and> (case proto_balance w of Num n \<Rightarrow> n \<noteq> 0 | _ \<Rightarrow> False))"

text \<open>The record a player starts with.\<close>

definition new_player :: "string \<Rightarrow> player" where
  "new_player t0 = \<lparr>balance = 1000, history = [created_entry t0]\<rparr>"

text \<open>The history the store holds for a user name; none for a name it does not hold.\<close>

definition history_of :: "world \<Rightarrow> string \<Rightarrow> entry list" where
  "history_of w username = (case stored w username of Some p \<Rightarrow> history p | None \<Rightarrow> [])"

text \<open>Every balance of the store is non-negative.\<close>

definition nonneg :: "world \<Rightarrow> bool" where
  "nonneg w \<longleftrightarrow> (\<forall>p \<in> ran (stored w). 0 \<le> balance p)"

text \<open>A mutating call succeeded: it answered \<^verbatim>\<open>{ok:true}\<close> or
  \<^verbatim>\<open>{ok:true, balance}\<close> with status 200.\<close>

fun succeeded :: "outcome \<Rightarrow> bool" where
  "succeeded (Reply s Done) = (s = 200)"
| "succeeded (Reply s (NewBalance b)) = (s = 200)"
| "succeeded r = False"

text \<open>The numeric checks of the handlers: a balance is refused when it does not parse or
  is negative, an amount when it does not parse or is not positive.\<close>

definition bad_balance :: "string \<Rightarrow> bool" where
  "bad_balance v = (case parseInt10 v of None \<Rightarrow> True | Some n \<Rightarrow> n < 0)"

definition bad_amount :: "string \<Rightarrow> bool" where
  "bad_amount v = (case parseInt10 v of None \<Rightarrow> True | Some n \<Rightarrow> n \<le> 0)"

section \<open>Basic facts\<close>

lemmas run_defs = loadData_def ensureDataFile_def getOrCreatePlayer_def players_get_def
  object_prototype_functions_def saveData_def writeFileSync_def fresh_def stored_def
  appendHistory_def created_entry_def Let_def

lemma stored_bob_world: "stored bob_world = [''bob'' \<mapsto> bob]"
  by (simp add: stored_def bob_world_def)

lemma not_inherited_alice: "\<not> inherited w ''alice''"
  by (simp add: inherited_def object_prototype_functions_def)

lemma parseInteger_parseInt10: "parseInteger v = parseInt10 v"
  by (simp add: parseInteger_def split: option.splits)

lemma ensureDataFile_not_Missing: "disk (ensureDataFile w) \<noteq> Missing"
  by (simp add: ensureDataFile_def writeFileSync_def)

lemma truthy_players_get:
  "truthy (players_get w ps u) \<longleftrightarrow> ps u \<noteq> None \<or> inherited w u"
  by (auto simp: players_get_def inherited_def split: option.splits jsnum.splits)

lemma players_get_Some: "ps u = Some p \<Longrightarrow> players_get w ps u = OwnRecord p"
  by (simp add: players_get_def)

lemma players_get_None_not_record: "ps u = None \<Longrightarrow> players_get w ps u \<noteq> OwnRecord p"
  by (simp add: players_get_def)

lemma fst_loadData: "fst (loadData w) = stored w"
  by (auto simp: loadData_def ensureDataFile_def writeFileSync_def stored_def Let_def
      split: disk.splits option.splits)

lemma stored_loadData: "stored (snd (loadData w)) = stored w"
  by (auto simp: loadData_def ensureDataFile_def writeFileSync_def stored_def Let_def
      split: disk.splits option.splits)

lemma loadData_Document: "disk w = Document (Some ps) \<Longrightarrow> loadData w = (ps, w)"
  by (simp add: loadData_def ensureDataFile_def)

lemma stored_Some_disk: "stored w u = Some p \<Longrightarrow> disk w = Document (Some (stored w))"
  by (auto simp: stored_def split: disk.splits option.splits)

lemma loadData_present: "stored w u = Some p \<Longrightarrow> loadData w = (stored w, w)"
  using loadData_Document stored_Some_disk by blast

lemma writes_loadData: "writes w \<le> writes (snd (loadData w))"
  by (auto simp: loadData_def ensureDataFile_def writeFileSync_def Let_def
      split: disk.splits option.splits)

lemma proto_balance_loadData [simp]: "proto_balance (snd (loadData w)) = proto_balance w"
  by (auto simp: loadData_def ensureDataFile_def writeFileSync_def Let_def
      split: disk.splits option.splits)

lemma builtin_balance_loadData [simp]:
  "builtin_balance (snd (loadData w)) = builtin_balance w"
  by (auto simp: loadData_def ensureDataFile_def writeFileSync_def Let_def
      split: disk.splits option.splits)

lemma inherited_loadData [simp]: "inherited (snd (loadData w)) u = inherited w u"
  by (simp add: inherited_def)

lemma inherited_saveData [simp]: "inherited (saveData ps w) u = inherited w u"
  by (simp add: inherited_def saveData_def writeFileSync_def)

lemma stored_saveData [simp]: "stored (saveData ps w) = ps"
  by (simp add: stored_def saveData_def writeFileSync_def)

lemma disk_saveData [simp]: "disk (saveData ps w) = Document (Some ps)"
  by (simp add: saveData_def writeFileSync_def)

lemma writes_saveData [simp]: "writes (saveData ps w) = Suc (writes w)"
  by (simp add: saveData_def writeFileSync_def)

lemma stored_assign_foreign [simp]: "stored (assign_foreign h v w) = stored w"
  by (cases h) (simp_all add: stored_def)

text \<open>The three ways \<^verbatim>\<open>getOrCreatePlayer\<close> can go.\<close>

lemma getOrCreatePlayer_present:
  "ps u = Some p \<Longrightarrow> getOrCreatePlayer t0 u (ps, w) = (OwnRecord p, ps, w)"
  by (simp add: getOrCreatePlayer_def players_get_Some)

lemma getOrCreatePlayer_creates:
  "ps u = None \<Longrightarrow> \<not> inherited w u \<Longrightarrow>
   getOrCreatePlayer t0 u (ps, w) =
     (OwnRecord (new_player t0), ps(u \<mapsto> new_player t0), saveData (ps(u \<mapsto> new_player t0)) w)"
  by (simp add: getOrCreatePlayer_def truthy_players_get players_get_Some new_player_def
      appendHistory_def Let_def)

lemma getOrCreatePlayer_inherited:
  "ps u = None \<Longrightarrow> inherited w u \<Longrightarrow>
   getOrCreatePlayer t0 u (ps, w) = (players_get w ps u, ps, w)"
  by (simp add: getOrCreatePlayer_def truthy_players_get)

lemma loadData_eq: "loadData w = (stored w, snd (loadData w))"
  by (metis fst_loadData prod.collapse)

subsection \<open>The operations on a user name the store holds\<close>

lemma recordSave_present:
  assumes "stored w u = Some p"
  shows "recordSave t0 t u b w =
    (Reply 200 Done,
     saveData ((stored w)(u \<mapsto> p\<lparr>balance := b, history := history p @
        [\<lparr>ts = t, game = ''manual-save'', delta = 0, desc = ''session save''\<rparr>]\<rparr>)) w)"
  using assms
  by (simp add: recordSave_def loadData_present getOrCreatePlayer_present appendHistory_def)

lemma charge_present:
  assumes "stored w u = Some p"
  shows "charge t0 t u g a d w =
    (if balance p - a < 0 then (Reply 200 (Failure ''INSUFFICIENT_FUNDS''), w)
     else (Reply 200 (NewBalance (balance p - a)),
       saveData ((stored w)(u \<mapsto> p\<lparr>balance := balance p - a, history := history p @
        [\<lparr>ts = t, game = g, delta = - a, desc = d\<rparr>]\<rparr>)) w))"
  using assms
  by (simp add: charge_def loadData_present getOrCreatePlayer_present appendHistory_def)

lemma payout_present:
  assumes "stored w u = Some p"
  shows "payout t0 t u g a d w =
    (Reply 200 (NewBalance (balance p + a)),
       saveData ((stored w)(u \<mapsto> p\<lparr>balance := balance p + a, history := history p @
        [\<lparr>ts = t, game = g, delta = a, desc = d\<rparr>]\<rparr>)) w)"
  using assms
  by (simp add: payout_def loadData_present getOrCreatePlayer_present appendHistory_def)

lemma adminSetBalance_present:
  assumes "stored w u = Some p"
  shows "adminSetBalance t0 t u b n w =
    (Reply 200 (NewBalance b),
       saveData ((stored w)(u \<mapsto> p\<lparr>balance := b, history := history p @
        [\<lparr>ts = t, game = ''admin-adjust'', delta = b - balance p, desc = n\<rparr>]\<rparr>)) w)"
  using assms
  by (simp add: adminSetBalance_def loadData_present getOrCreatePlayer_present appendHistory_def Let_def)

subsection \<open>The operations on a user name that is created\<close>

lemma recordSave_creates:
  assumes "stored w u = None" "\<not> inherited w u"
  shows "recordSave t0 t u b w =
    (Reply 200 Done,
     saveData ((stored w)(u \<mapsto> \<lparr>balance = b, history = 
        [created_entry t0, \<lparr>ts = t, game = ''manual-save'', delta = 0, desc = ''session save''\<rparr>]\<rparr>))
       (saveData ((stored w)(u \<mapsto> new_player t0)) (snd (loadData w))))"
  using assms
  apply (subst recordSave_def)
  apply (subst loadData_eq)
  apply (simp add: getOrCreatePlayer_creates appendHistory_def new_player_def)
  done

lemma charge_creates:
  assumes "stored w u = None" "\<not> inherited w u"
  shows "charge t0 t u g a d w =
    (if 1000 - a < 0 then (Reply 200 (Failure ''INSUFFICIENT_FUNDS''),
         saveData ((stored w)(u \<mapsto> new_player t0)) (snd (loadData w)))
     else (Reply 200 (NewBalance (1000 - a)),
     saveData ((stored w)(u \<mapsto> \<lparr>balance = 1000 - a, history = 
        [created_entry t0, \<lparr>ts = t, game = g, delta = - a, desc = d\<rparr>]\<rparr>))
       (saveData ((stored w)(u \<mapsto> new_player t0)) (snd (loadData w)))))"
  using assms
  apply (subst charge_def)
  apply (subst loadData_eq)
  apply (simp add: getOrCreatePlayer_creates appendHistory_def new_player_def)
  done

lemma payout_creates:
  assumes "stored w u = None" "\<not> inherited w u"
  shows "payout t0 t u g a d w =
    (Reply 200 (NewBalance (1000 + a)),
     saveData ((stored w)(u \<mapsto> \<lparr>balance = 1000 + a, history = 
        [created_entry t0, \<lparr>ts = t, game = g, delta = a, desc = d\<rparr>]\<rparr>))
       (saveData ((stored w)(u \<mapsto> new_player t0)) (snd (loadData w))))"
  using assms
  apply (subst payout_def)
  apply (subst loadData_eq)
  apply (simp add: getOrCreatePlayer_creates appendHistory_def new_player_def)
  done

lemma adminSetBalance_creates:
  assumes "stored w u = None" "\<not> inherited w u"
  shows "adminSetBalance t0 t u b n w =
    (Reply 200 (NewBalance b),
     saveData ((stored w)(u \<mapsto> \<lparr>balance = b, history = 
        [created_entry t0, \<lparr>ts = t, game = ''admin-adjust'', delta = b - 1000, desc = n\<rparr>]\<rparr>))
       (saveData ((stored w)(u \<mapsto> new_player t0)) (snd (loadData w))))"
  using assms
  apply (subst adminSetBalance_def)
  apply (subst loadData_eq)
  apply (simp add: getOrCreatePlayer_creates appendHistory_def new_player_def Let_def)
  done

lemma getProfile_present:
  assumes "stored w u = Some p"
  shows "getProfile t0 u w = (Reply 200 (Profile u (Num (balance p))), saveData (stored w) w)"
  using assms
  by (simp add: getProfile_def loadData_present getOrCreatePlayer_present)

lemma getProfile_creates:
  assumes "stored w u = None" "\<not> inherited w u"
  shows "getProfile t0 u w = (Reply 200 (Profile u (Num 1000)),
      saveData ((stored w)(u \<mapsto> new_player t0)) (saveData ((stored w)(u \<mapsto> new_player t0)) (snd (loadData w))))"
  using assms
  apply (subst getProfile_def)
  apply (subst loadData_eq)
  apply (simp add: getOrCreatePlayer_creates new_player_def)
  done

lemma getUserDetail_present:
  assumes "stored w u = Some p"
  shows "getUserDetail t0 u w = (Reply 200 (Detail u (Num (balance p)) (Some (history p))), saveData (stored w) w)"
  using assms
  by (simp add: getUserDetail_def loadData_present getOrCreatePlayer_present)

lemma getUserDetail_creates:
  assumes "stored w u = None" "\<not> inherited w u"
  shows "getUserDetail t0 u w = (Reply 200 (Detail u (Num 1000) (Some [created_entry t0])),
      saveData ((stored w)(u \<mapsto> new_player t0)) (saveData ((stored w)(u \<mapsto> new_player t0)) (snd (loadData w))))"
  using assms
  apply (subst getUserDetail_def)
  apply (subst loadData_eq)
  apply (simp add: getOrCreatePlayer_creates new_player_def)
  done

lemma adminDelete_present:
  assumes "stored w u = Some p"
  shows "adminDelete u w = (Reply 200 Done, saveData ((stored w)(u := None)) w)"
  using assms
  by (simp add: adminDelete_def loadData_present truthy_players_get)


subsection \<open>The operations on a user name found on the prototype chain\<close>

lemma stored_proto_update [simp]: "stored (w\<lparr>proto_balance := v\<rparr>) = stored w"
  by (simp add: stored_def)

lemma stored_builtin_update [simp]: "stored (w\<lparr>builtin_balance := f\<rparr>) = stored w"
  by (simp add: stored_def)

lemma getOrCreatePlayer_loaded_inherited:
  assumes "stored w u = None" "inherited w u"
  shows "getOrCreatePlayer t0 u (loadData w) =
           (players_get (snd (loadData w)) (stored w) u, stored w, snd (loadData w))"
  using assms by (subst loadData_eq) (simp add: getOrCreatePlayer_inherited)

lemma recordSave_inherited:
  assumes "stored w u = None" "inherited w u"
  shows "fst (recordSave t0 t u b w) = TypeError"
    and "stored (snd (recordSave t0 t u b w)) = stored w"
  using assms players_get_None_not_record [of "stored w" u "snd (loadData w)"]
  by (auto simp: recordSave_def getOrCreatePlayer_loaded_inherited stored_loadData
      split: handle.splits)

lemma charge_inherited:
  assumes "stored w u = None" "inherited w u"
  shows "fst (charge t0 t u g a d w) \<in> {TypeError, Reply 200 (Failure ''INSUFFICIENT_FUNDS'')}"
    and "stored (snd (charge t0 t u g a d w)) = stored w"
  using assms players_get_None_not_record [of "stored w" u "snd (loadData w)"]
  by (auto simp: charge_def getOrCreatePlayer_loaded_inherited stored_loadData
      split: handle.splits)

lemma payout_inherited:
  assumes "stored w u = None" "inherited w u"
  shows "fst (payout t0 t u g a d w) = TypeError"
    and "stored (snd (payout t0 t u g a d w)) = stored w"
  using assms players_get_None_not_record [of "stored w" u "snd (loadData w)"]
  by (auto simp: payout_def getOrCreatePlayer_loaded_inherited stored_loadData
      split: handle.splits)

lemma adminSetBalance_inherited:
  assumes "stored w u = None" "inherited w u"
  shows "fst (adminSetBalance t0 t u b n w) = TypeError"
    and "stored (snd (adminSetBalance t0 t u b n w)) = stored w"
  using assms players_get_None_not_record [of "stored w" u "snd (loadData w)"]
  by (auto simp: adminSetBalance_def getOrCreatePlayer_loaded_inherited stored_loadData
      split: handle.splits)

lemma getProfile_inherited:
  assumes "stored w u = None" "inherited w u"
  shows "stored (snd (getProfile t0 u w)) = stored w"
  using assms
  by (simp add: getProfile_def getOrCreatePlayer_loaded_inherited Let_def)

lemma getUserDetail_inherited:
  assumes "stored w u = None" "inherited w u"
  shows "stored (snd (getUserDetail t0 u w)) = stored w"
  using assms
  by (simp add: getUserDetail_def getOrCreatePlayer_loaded_inherited Let_def)

lemma adminDelete_inherited:
  assumes "stored w u = None" "inherited w u"
  shows "adminDelete u w = (Reply 200 Done, saveData (stored w) (snd (loadData w)))"
proof -
  have "(stored w)(u := None) = stored w"
    using assms(1) by (simp add: fun_upd_idem)
  then show ?thesis
    using assms
    by (subst adminDelete_def, subst loadData_eq) (simp add: truthy_players_get)
qed

section \<open>Refused charges (C1)\<close>

text \<open>
  C1, as stated: a charge whose amount exceeds the balance is refused with
  \<^verbatim>\<open>INSUFFICIENT_FUNDS\<close> and leaves the store unmodified and unpersisted, also when the
  user name was not in the store before the call. This fails for a new user name: with an
  empty store, charging 2000 to \<open>alice\<close> is refused, yet \<^verbatim>\<open>getOrCreatePlayer\<close> has already
  added the default record of \<open>alice\<close> and written the file once.
\<close>

theorem charge_refused_after_creation_counterexample:
  "fst (charge ''t0'' ''t1'' ''alice'' ''slots'' 2000 ''spin'' fresh)
     = Reply 200 (Failure ''INSUFFICIENT_FUNDS'') \<and>
   stored fresh ''alice'' = None \<and>
   stored (snd (charge ''t0'' ''t1'' ''alice'' ''slots'' 2000 ''spin'' fresh)) ''alice''
     = Some \<lparr>balance = 1000, history =
         [\<lparr>ts = ''t0'', game = ''system'', delta = 0, desc = ''auto-created profile''\<rparr>]\<rparr> \<and>
   writes fresh = 0 \<and>
   writes (snd (charge ''t0'' ''t1'' ''alice'' ''slots'' 2000 ''spin'' fresh)) = 1"
  by (simp add: charge_def run_defs)

text \<open>
  C1, amended: a charge of \<open>a\<close> with balance minus \<open>a\<close> negative is refused with
  \<^verbatim>\<open>INSUFFICIENT_FUNDS\<close>. When the store holds the user name, the whole state is left as
  it was: nothing is modified and nothing is written. When the user name is new and is
  created, the refusal comes after the creation: the file then holds the old store plus
  the default record of that user name, and has been written.
\<close>

theorem charge_insufficient_funds:
  "(stored w u = Some p \<and> balance p - a < 0 \<longrightarrow>
      charge t0 t u g a d w = (Reply 200 (Failure ''INSUFFICIENT_FUNDS''), w)) \<and>
   (stored w u = None \<and> \<not> inherited w u \<and> 1000 - a < 0 \<longrightarrow>
      fst (charge t0 t u g a d w) = Reply 200 (Failure ''INSUFFICIENT_FUNDS'') \<and>
      disk (snd (charge t0 t u g a d w)) = Document (Some ((stored w)(u \<mapsto> new_player t0))) \<and>
      writes w < writes (snd (charge t0 t u g a d w)))"
proof (intro conjI impI)
  assume "stored w u = Some p \<and> balance p - a < 0"
  then show "charge t0 t u g a d w = (Reply 200 (Failure ''INSUFFICIENT_FUNDS''), w)"
    by (simp add: charge_present)
next
  assume h: "stored w u = None \<and> \<not> inherited w u \<and> 1000 - a < 0"
  then have c: "charge t0 t u g a d w = (Reply 200 (Failure ''INSUFFICIENT_FUNDS''),
         saveData ((stored w)(u \<mapsto> new_player t0)) (snd (loadData w)))"
    by (simp add: charge_creates)
  show "fst (charge t0 t u g a d w) = Reply 200 (Failure ''INSUFFICIENT_FUNDS'')"
    by (simp add: c)
  show "disk (snd (charge t0 t u g a d w)) = Document (Some ((stored w)(u \<mapsto> new_player t0)))"
    by (simp add: c)
  show "writes w < writes (snd (charge t0 t u g a d w))"
    using writes_loadData [of w] by (simp add: c)
qed

theorem charge_insufficient_funds_witness:
  "charge ''t0'' ''t1'' ''bob'' ''slots'' 50 ''spin'' bob_world
     = (Reply 200 (Failure ''INSUFFICIENT_FUNDS''), bob_world) \<and>
   fst (charge ''t0'' ''t1'' ''alice'' ''slots'' 2000 ''spin'' bob_world)
     = Reply 200 (Failure ''INSUFFICIENT_FUNDS'') \<and>
   disk (snd (charge ''t0'' ''t1'' ''alice'' ''slots'' 2000 ''spin'' bob_world))
     = Document (Some ((stored bob_world)(''alice'' \<mapsto> new_player ''t0''))) \<and>
   writes bob_world < writes (snd (charge ''t0'' ''t1'' ''alice'' ''slots'' 2000 ''spin'' bob_world))"
proof -
  have a: "stored bob_world ''bob'' = Some bob \<and> balance bob - 50 < 0"
    by (simp add: stored_bob_world bob_def)
  have b: "stored bob_world ''alice'' = None \<and> \<not> inherited bob_world ''alice'' \<and>
           (1000::int) - 2000 < 0"
    by (simp add: stored_bob_world not_inherited_alice)
  from a b
    charge_insufficient_funds [of bob_world "''bob''" bob 50 "''t0''" "''t1''" "''slots''" "''spin''"]
    charge_insufficient_funds [of bob_world "''alice''" bob 2000 "''t0''" "''t1''" "''slots''" "''spin''"]
  show ?thesis by blast
qed

section \<open>Lazy creation (C2)\<close>




section \<open>The history only grows (C4)\<close>

text \<open>
  C4, as stated: after every successful save, charge, payout or admin set-balance on any
  user name, the history is one entry longer than before. For a user name the store does
  not hold yet this fails: the store has no entry for \<open>alice\<close> before her first save and
  two after it, the creation entry and the save entry.
\<close>

theorem history_after_first_save_counterexample:
  "succeeded (fst (recordSave ''t0'' ''t1'' ''alice'' 5 fresh)) \<and>
   length (history_of fresh ''alice'') = 0 \<and>
   length (history_of (snd (recordSave ''t0'' ''t1'' ''alice'' 5 fresh)) ''alice'') = 2"
  by (simp add: recordSave_def history_of_def run_defs)

lemma history_of_present: "stored w u = Some p \<Longrightarrow> history_of w u = history p"
  by (simp add: history_of_def)

lemma recordSave_history:
  "succeeded (fst (recordSave t0 t u b w)) \<Longrightarrow>
   history_of (snd (recordSave t0 t u b w)) u =
     (if stored w u = None then [created_entry t0] else history_of w u) @
     [\<lparr>ts = t, game = ''manual-save'', delta = 0, desc = ''session save''\<rparr>]"
proof (cases "stored w u")
  case (Some p)
  then show ?thesis
    by (simp add: recordSave_present history_of_def)
next
  case None
  assume s: "succeeded (fst (recordSave t0 t u b w))"
  show ?thesis
  proof (cases "inherited w u")
    case True
    with None s show ?thesis by (simp add: recordSave_inherited)
  next
    case False
    with None show ?thesis by (simp add: recordSave_creates history_of_def)
  qed
qed

lemma charge_history:
  "succeeded (fst (charge t0 t u g a d w)) \<Longrightarrow>
   history_of (snd (charge t0 t u g a d w)) u =
     (if stored w u = None then [created_entry t0] else history_of w u) @
     [\<lparr>ts = t, game = g, delta = - a, desc = d\<rparr>]"
proof (cases "stored w u")
  case (Some p)
  assume s: "succeeded (fst (charge t0 t u g a d w))"
  with Some show ?thesis
    by (simp add: charge_present history_of_def split: if_splits)
next
  case None
  assume s: "succeeded (fst (charge t0 t u g a d w))"
  show ?thesis
  proof (cases "inherited w u")
    case True
    with None s charge_inherited(1) [of w u t0 t g a d] show ?thesis by auto
  next
    case False
    with None s show ?thesis by (simp add: charge_creates history_of_def split: if_splits)
  qed
qed

lemma payout_history:
  "succeeded (fst (payout t0 t u g a d w)) \<Longrightarrow>
   history_of (snd (payout t0 t u g a d w)) u =
     (if stored w u = None then [created_entry t0] else history_of w u) @
     [\<lparr>ts = t, game = g, delta = a, desc = d\<rparr>]"
proof (cases "stored w u")
  case (Some p)
  then show ?thesis
    by (simp add: payout_present history_of_def)
next
  case None
  assume s: "succeeded (fst (payout t0 t u g a d w))"
  show ?thesis
  proof (cases "inherited w u")
    case True
    with None s show ?thesis by (simp add: payout_inherited)
  next
    case False
    with None show ?thesis by (simp add: payout_creates history_of_def)
  qed
qed

lemma adminSetBalance_history:
  "succeeded (fst (adminSetBalance t0 t u b n w)) \<Longrightarrow>
   history_of (snd (adminSetBalance t0 t u b n w)) u =
     (if stored w u = None then [created_entry t0] else history_of w u) @
     [\<lparr>ts = t, game = ''admin-adjust'',
       delta = b - (case stored w u of None \<Rightarrow> 1000 | Some p \<Rightarrow> balance p), desc = n\<rparr>]"
proof (cases "stored w u")
  case (Some p)
  then show ?thesis
    by (simp add: adminSetBalance_present history_of_def)
next
  case None
  assume s: "succeeded (fst (adminSetBalance t0 t u b n w))"
  show ?thesis
  proof (cases "inherited w u")
    case True
    with None s show ?thesis by (simp add: adminSetBalance_inherited)
  next
    case False
    with None show ?thesis by (simp add: adminSetBalance_creates history_of_def)
  qed
qed

lemma mutations_succeed:
  assumes "stored w u \<noteq> None \<or> \<not> inherited w u"
  shows "succeeded (fst (recordSave t0 t u b w)) \<and>
         succeeded (fst (payout t0 t u g a d w)) \<and>
         succeeded (fst (adminSetBalance t0 t u b n w)) \<and>
         (succeeded (fst (charge t0 t u g a d w)) \<longleftrightarrow>
           0 \<le> (case stored w u of None \<Rightarrow> 1000 | Some p \<Rightarrow> balance p) - a)"
  using assms
  by (cases "stored w u")
    (simp_all add: recordSave_present recordSave_creates payout_present payout_creates
        adminSetBalance_present adminSetBalance_creates charge_present charge_creates)

text \<open>
  C4, amended: after every successful save, charge, payout or admin set-balance, the
  history of the user name is its history before the call, unaltered and in the same
  order, followed by exactly one new entry, when the store held the user name; when it
  did not, the history is the creation entry followed by the new entry. Save, payout and
  admin set-balance succeed for every user name the store holds or creates, and a charge
  exactly when the balance covers the amount.
\<close>

theorem history_append_only:
  "(succeeded (fst (recordSave t0 t u b w)) \<longrightarrow>
      history_of (snd (recordSave t0 t u b w)) u =
        (if stored w u = None then [created_entry t0] else history_of w u) @
        [\<lparr>ts = t, game = ''manual-save'', delta = 0, desc = ''session save''\<rparr>]) \<and>
   (succeeded (fst (charge t0 t u g a d w)) \<longrightarrow>
      history_of (snd (charge t0 t u g a d w)) u =
        (if stored w u = None then [created_entry t0] else history_of w u) @
        [\<lparr>ts = t, game = g, delta = - a, desc = d\<rparr>]) \<and>
   (succeeded (fst (payout t0 t u g a d w)) \<longrightarrow>
      history_of (snd (payout t0 t u g a d w)) u =
        (if stored w u = None then [created_entry t0] else history_of w u) @
        [\<lparr>ts = t, game = g, delta = a, desc = d\<rparr>]) \<and>
   (succeeded (fst (adminSetBalance t0 t u b n w)) \<longrightarrow>
      history_of (snd (adminSetBalance t0 t u b n w)) u =
        (if stored w u = None then [created_entry t0] else history_of w u) @
        [\<lparr>ts = t, game = ''admin-adjust'',
          delta = b - (case stored w u of None \<Rightarrow> 1000 | Some p \<Rightarrow> balance p),
          desc = n\<rparr>]) \<and>
   (stored w u \<noteq> None \<or> \<not> inherited w u \<longrightarrow>
      succeeded (fst (recordSave t0 t u b w)) \<and>
      succeeded (fst (payout t0 t u g a d w)) \<and>
      succeeded (fst (adminSetBalance t0 t u b n w)) \<and>
      (succeeded (fst (charge t0 t u g a d w)) \<longleftrightarrow>
         0 \<le> (case stored w u of None \<Rightarrow> 1000 | Some p \<Rightarrow> balance p) - a))"
proof (intro conjI impI)
  assume "stored w u \<noteq> None \<or> \<not> inherited w u"
  note ok = mutations_succeed [OF this, of t0 t b g a d n]
  show "succeeded (fst (recordSave t0 t u b w))" using ok by simp
  show "succeeded (fst (payout t0 t u g a d w))" using ok by simp
  show "succeeded (fst (adminSetBalance t0 t u b n w))" using ok by simp
  show "succeeded (fst (charge t0 t u g a d w)) \<longleftrightarrow>
         0 \<le> (case stored w u of None \<Rightarrow> 1000 | Some p \<Rightarrow> balance p) - a"
    using ok by simp
qed (fact recordSave_history charge_history payout_history adminSetBalance_history)+

theorem history_append_only_witness:
  "succeeded (fst (charge ''t0'' ''t1'' ''bob'' ''slots'' 10 ''spin'' bob_world)) \<and>
   history_of bob_world ''bob'' = [created_entry ''2024-05-01T10:00:00.000Z''] \<and>
   history_of (snd (charge ''t0'' ''t1'' ''bob'' ''slots'' 10 ''spin'' bob_world)) ''bob'' =
     [created_entry ''2024-05-01T10:00:00.000Z'',
      \<lparr>ts = ''t1'', game = ''slots'', delta = - 10, desc = ''spin''\<rparr>] \<and>
   succeeded (fst (recordSave ''t0'' ''t1'' ''alice'' 5 bob_world)) \<and>
   history_of (snd (recordSave ''t0'' ''t1'' ''alice'' 5 bob_world)) ''alice'' =
     [created_entry ''t0'',
      \<lparr>ts = ''t1'', game = ''manual-save'', delta = 0, desc = ''session save''\<rparr>] \<and>
   succeeded (fst (payout ''t0'' ''t1'' ''bob'' ''slots'' 10 ''win'' bob_world)) \<and>
   history_of (snd (payout ''t0'' ''t1'' ''bob'' ''slots'' 10 ''win'' bob_world)) ''bob'' =
     [created_entry ''2024-05-01T10:00:00.000Z'',
      \<lparr>ts = ''t1'', game = ''slots'', delta = 10, desc = ''win''\<rparr>] \<and>
   succeeded (fst (adminSetBalance ''t0'' ''t1'' ''bob'' 100 ''gift'' bob_world)) \<and>
   history_of (snd (adminSetBalance ''t0'' ''t1'' ''bob'' 100 ''gift'' bob_world)) ''bob'' =
     [created_entry ''2024-05-01T10:00:00.000Z'',
      \<lparr>ts = ''t1'', game = ''admin-adjust'', delta = 70, desc = ''gift''\<rparr>]"
proof -
  have bob: "stored bob_world ''bob'' = Some bob" "balance bob = 30"
    "history bob = [created_entry ''2024-05-01T10:00:00.000Z'']"
    by (simp_all add: stored_bob_world bob_def)
  have alice: "stored bob_world ''alice'' = None" "\<not> inherited bob_world ''alice''"
    by (simp_all add: stored_bob_world not_inherited_alice)
  have h: "history_of bob_world ''bob'' = [created_entry ''2024-05-01T10:00:00.000Z'']"
    by (simp add: history_of_def bob)
  from bob h
    history_append_only [of "''t0''" "''t1''" "''bob''" 100 bob_world "''slots''" 10 "''spin''" "''gift''"]
  have 1: "succeeded (fst (charge ''t0'' ''t1'' ''bob'' ''slots'' 10 ''spin'' bob_world)) \<and>
     history_of (snd (charge ''t0'' ''t1'' ''bob'' ''slots'' 10 ''spin'' bob_world)) ''bob'' =
     [created_entry ''2024-05-01T10:00:00.000Z'',
      \<lparr>ts = ''t1'', game = ''slots'', delta = - 10, desc = ''spin''\<rparr>] \<and>
     succeeded (fst (adminSetBalance ''t0'' ''t1'' ''bob'' 100 ''gift'' bob_world)) \<and>
     history_of (snd (adminSetBalance ''t0'' ''t1'' ''bob'' 100 ''gift'' bob_world)) ''bob'' =
     [created_entry ''2024-05-01T10:00:00.000Z'',
      \<lparr>ts = ''t1'', game = ''admin-adjust'', delta = 70, desc = ''gift''\<rparr>]"
    by simp
  from bob h
    history_append_only [of "''t0''" "''t1''" "''bob''" 100 bob_world "''slots''" 10 "''win''" "''gift''"]
  have 2: "succeeded (fst (payout ''t0'' ''t1'' ''bob'' ''slots'' 10 ''win'' bob_world)) \<and>
     history_of (snd (payout ''t0'' ''t1'' ''bob'' ''slots'' 10 ''win'' bob_world)) ''bob'' =
     [created_entry ''2024-05-01T10:00:00.000Z'',
      \<lparr>ts = ''t1'', game = ''slots'', delta = 10, desc = ''win''\<rparr>]"
    by simp
  from alice
    history_append_only [of "''t0''" "''t1''" "''alice''" 5 bob_world "''slots''" 10 "''spin''" "''gift''"]
  have 3: "succeeded (fst (recordSave ''t0'' ''t1'' ''alice'' 5 bob_world)) \<and>
     history_of (snd (recordSave ''t0'' ''t1'' ''alice'' 5 bob_world)) ''alice'' =
     [created_entry ''t0'',
      \<lparr>ts = ''t1'', game = ''manual-save'', delta = 0, desc = ''session save''\<rparr>]"
    by simp
  from 1 2 3 h show ?thesis by simp
qed

section \<open>Balances stay non-negative (C3)\<close>

lemma nonneg_iff: "nonneg w \<longleftrightarrow> (\<forall>u p. stored w u = Some p \<longrightarrow> 0 \<le> balance p)"
  by (auto simp: nonneg_def ran_def)

lemma nonneg_loadData: "nonneg (snd (loadData w)) = nonneg w"
  by (simp add: nonneg_def stored_loadData)

lemma nonneg_put:
  "nonneg w \<Longrightarrow> 0 \<le> balance q \<Longrightarrow> nonneg (saveData ((stored w)(u \<mapsto> q)) w')"
  by (simp add: nonneg_iff)

lemma nonneg_new_player: "0 \<le> balance (new_player t0)"
  by (simp add: new_player_def)

lemma recordSave_nonneg:
  assumes "nonneg w" "0 \<le> b"
  shows "nonneg (snd (recordSave t0 t u b w))"
proof (cases "stored w u")
  case (Some p)
  with assms show ?thesis by (simp add: recordSave_present nonneg_put)
next
  case None
  show ?thesis
  proof (cases "inherited w u")
    case True
    with None assms show ?thesis
      by (simp add: nonneg_def recordSave_inherited)
  next
    case False
    with None assms show ?thesis by (simp add: recordSave_creates nonneg_put)
  qed
qed

lemma charge_nonneg:
  assumes "nonneg w"
  shows "nonneg (snd (charge t0 t u g a d w))"
proof (cases "stored w u")
  case (Some p)
  with assms show ?thesis by (simp add: charge_present nonneg_put)
next
  case None
  show ?thesis
  proof (cases "inherited w u")
    case True
    with None assms show ?thesis
      by (simp add: nonneg_def charge_inherited)
  next
    case False
    with None assms show ?thesis
      by (simp add: charge_creates nonneg_put nonneg_new_player)
  qed
qed

lemma payout_nonneg:
  assumes "nonneg w" "0 \<le> a"
  shows "nonneg (snd (payout t0 t u g a d w))"
proof (cases "stored w u")
  case (Some p)
  with assms have "0 \<le> balance p" by (simp add: nonneg_iff)
  with Some assms show ?thesis by (simp add: payout_present nonneg_put)
next
  case None
  show ?thesis
  proof (cases "inherited w u")
    case True
    with None assms show ?thesis
      by (simp add: nonneg_def payout_inherited)
  next
    case False
    with None assms show ?thesis by (simp add: payout_creates nonneg_put)
  qed
qed

lemma adminSetBalance_nonneg:
  assumes "nonneg w" "0 \<le> b"
  shows "nonneg (snd (adminSetBalance t0 t u b n w))"
proof (cases "stored w u")
  case (Some p)
  with assms show ?thesis by (simp add: adminSetBalance_present nonneg_put)
next
  case None
  show ?thesis
  proof (cases "inherited w u")
    case True
    with None assms show ?thesis
      by (simp add: nonneg_def adminSetBalance_inherited)
  next
    case False
    with None assms show ?thesis by (simp add: adminSetBalance_creates nonneg_put)
  qed
qed

lemma getProfile_nonneg:
  assumes "nonneg w"
  shows "nonneg (snd (getProfile t0 u w))"
proof (cases "stored w u")
  case (Some p)
  with assms show ?thesis by (simp add: getProfile_present nonneg_def)
next
  case None
  show ?thesis
  proof (cases "inherited w u")
    case True
    with None assms show ?thesis
      by (simp add: nonneg_def getProfile_inherited)
  next
    case False
    with None assms show ?thesis
      by (simp add: getProfile_creates nonneg_put nonneg_new_player)
  qed
qed

lemma getUserDetail_nonneg:
  assumes "nonneg w"
  shows "nonneg (snd (getUserDetail t0 u w))"
proof (cases "stored w u")
  case (Some p)
  with assms show ?thesis by (simp add: getUserDetail_present nonneg_def)
next
  case None
  show ?thesis
  proof (cases "inherited w u")
    case True
    with None assms show ?thesis
      by (simp add: nonneg_def getUserDetail_inherited)
  next
    case False
    with None assms show ?thesis
      by (simp add: getUserDetail_creates nonneg_put nonneg_new_player)
  qed
qed

lemma adminDelete_eq:
  "adminDelete u w =
     (Reply 200 Done,
      if truthy (players_get (snd (loadData w)) (stored w) u)
      then saveData ((stored w)(u := None)) (snd (loadData w)) else snd (loadData w))"
  by (simp add: adminDelete_def case_prod_beta fst_loadData)

lemma adminDelete_nonneg:
  assumes "nonneg w"
  shows "nonneg (snd (adminDelete u w))"
  using assms by (auto simp: adminDelete_eq nonneg_iff stored_loadData split: if_splits)

lemma serve_nonneg: "nonneg w \<Longrightarrow> nonneg (serve r w)"
proof (cases r)
  case (PostSave t0 t u b)
  assume "nonneg w"
  then show ?thesis
    by (simp add: PostSave post_profile_save_def recordSave_nonneg Let_def split: option.splits)
next
  case (PostCharge t0 t u g a d)
  assume "nonneg w"
  then show ?thesis
    by (simp add: PostCharge post_game_charge_def charge_nonneg Let_def split: option.splits)
next
  case (PostPayout t0 t u g a d)
  assume "nonneg w"
  then show ?thesis
    by (simp add: PostPayout post_game_payout_def payout_nonneg Let_def split: option.splits)
next
  case (PostSetBalance t0 t u b n)
  assume "nonneg w"
  then show ?thesis
    by (simp add: PostSetBalance post_admin_set_balance_def adminSetBalance_nonneg Let_def
        split: option.splits)
qed (simp_all add: get_profile_def getProfile_nonneg get_admin_user_detail_def
      getUserDetail_nonneg post_admin_delete_user_def adminDelete_nonneg nonneg_loadData Let_def
      split: option.splits)

lemma serve_all_nonneg: "nonneg w \<Longrightarrow> nonneg (serve_all rs w)"
  by (induction rs arbitrary: w) (simp_all add: serve_nonneg)

text \<open>
  C3: starting from a store whose balances are all non-negative, every balance of the
  store is non-negative after every request of any sequence of requests to the routes
  (save, charge, payout and admin set-balance among them, with whatever fields), hence
  after each committed mutation. In particular a charge of more than the balance is
  answered with \<^verbatim>\<open>INSUFFICIENT_FUNDS\<close> and leaves the state as it was; for a user name
  created by the call the balance is the initial 1000 and stays 1000.
\<close>

theorem balances_never_negative:
  assumes "nonneg w"
  shows "nonneg (serve_all rs w) \<and>
         (\<forall>n. nonneg (serve_all (take n rs) w)) \<and>
         (stored w u = Some p \<and> balance p < a \<longrightarrow>
            charge t0 t u g a d w = (Reply 200 (Failure ''INSUFFICIENT_FUNDS''), w)) \<and>
         (stored w u = None \<and> \<not> inherited w u \<and> 1000 < a \<longrightarrow>
            fst (charge t0 t u g a d w) = Reply 200 (Failure ''INSUFFICIENT_FUNDS'') \<and>
            stored (snd (charge t0 t u g a d w)) u = Some (new_player t0) \<and>
            balance (new_player t0) = 1000)"
  using assms
  by (simp add: serve_all_nonneg charge_present charge_creates new_player_def)

theorem balances_never_negative_witness:
  "nonneg bob_world \<and>
   nonneg (serve_all [PostCharge ''t0'' ''t1'' (Text ''bob'') (Text ''slots'') ''25'' (Text ''spin''),
                      PostCharge ''t2'' ''t3'' (Text ''bob'') (Text ''slots'') ''25'' Falsy,
                      PostSave ''t4'' ''t5'' (Text ''alice'') ''0'',
                      PostPayout ''t6'' ''t7'' (Text ''bob'') NonString ''5'' Falsy,
                      PostSetBalance ''t8'' ''t9'' (Text ''bob'') ''12'' (Text ''fix'')] bob_world) \<and>
   charge ''t0'' ''t1'' ''bob'' ''slots'' 31 ''spin'' bob_world
     = (Reply 200 (Failure ''INSUFFICIENT_FUNDS''), bob_world) \<and>
   fst (charge ''t0'' ''t1'' ''alice'' ''slots'' 1001 ''spin'' bob_world)
     = Reply 200 (Failure ''INSUFFICIENT_FUNDS'') \<and>
   stored (snd (charge ''t0'' ''t1'' ''alice'' ''slots'' 1001 ''spin'' bob_world)) ''alice''
     = Some (new_player ''t0'')"
proof -
  have n: "nonneg bob_world"
    by (simp add: nonneg_def stored_bob_world bob_def)
  have bob: "stored bob_world ''bob'' = Some bob \<and> balance bob < 31"
    by (simp add: stored_bob_world bob_def)
  have alice: "stored bob_world ''alice'' = None \<and> \<not> inherited bob_world ''alice'' \<and>
               (1000::int) < 1001"
    by (simp add: stored_bob_world not_inherited_alice)
  from n bob alice
    balances_never_negative [OF n, of _ "''bob''" bob 31 "''t0''" "''t1''" "''slots''" "''spin''"]
    balances_never_negative [OF n, of _ "''alice''" bob 1001 "''t0''" "''t1''" "''slots''" "''spin''"]
  show ?thesis by blast
qed

section \<open>The example scenario (C7)\<close>

lemmas parse_defs = parseInteger_def parseInt10_def isWhiteSpace_def isDigit_def decimal_def
  digitValue_def trim_def

lemma trim_alice: "trim ''alice'' = ''alice''"
  by (simp add: parse_defs)

lemma parse_200: "parseInteger ''200'' = Some 200"
  by (simp add: parse_defs)

lemma parse_50: "parseInteger ''50'' = Some 50"
  by (simp add: parse_defs)

lemma parse_1000: "parseInteger ''1000'' = Some 1000"
  by (simp add: parse_defs)

text \<open>
  C7: from any state whose store has no \<open>alice\<close>, the requests charge 200, payout 50,
  charge 1000 for \<open>alice\<close> answer with balance 800, then balance 850, then
  \<^verbatim>\<open>INSUFFICIENT_FUNDS\<close>; the stored balance is 800, then 850, and still 850 after the
  refused charge, which changes nothing.
\<close>

theorem alice_scenario:
  assumes "stored w ''alice'' = None"
  shows "let r1 = post_game_charge t0 t1 (Text ''alice'') (Text g1) ''200'' (Text d1) w;
             r2 = post_game_payout t2 t3 (Text ''alice'') (Text g2) ''50'' (Text d2) (snd r1);
             r3 = post_game_charge t4 t5 (Text ''alice'') (Text g3) ''1000'' (Text d3) (snd r2)
         in fst r1 = Reply 200 (NewBalance 800) \<and>
            map_option balance (stored (snd r1) ''alice'') = Some 800 \<and>
            fst r2 = Reply 200 (NewBalance 850) \<and>
            map_option balance (stored (snd r2) ''alice'') = Some 850 \<and>
            fst r3 = Reply 200 (Failure ''INSUFFICIENT_FUNDS'') \<and>
            map_option balance (stored (snd r3) ''alice'') = Some 850 \<and>
            snd r3 = snd r2"
proof -
  define r1 where "r1 = post_game_charge t0 t1 (Text ''alice'') (Text g1) ''200'' (Text d1) w"
  define r2 where "r2 = post_game_payout t2 t3 (Text ''alice'') (Text g2) ''50'' (Text d2) (snd r1)"
  define r3 where "r3 = post_game_charge t4 t5 (Text ''alice'') (Text g3) ''1000'' (Text d3) (snd r2)"
  have c1: "r1 = charge t0 t1 ''alice'' (orDefault (trim g1) ''unknown'') 200
                   (orDefault (trim d1) ''game charge'') w"
    by (simp add: r1_def post_game_charge_def trim_alice parse_200)
  have f1: "fst r1 = Reply 200 (NewBalance 800)"
    using assms by (simp add: c1 charge_creates not_inherited_alice)
  obtain p1 where s1: "stored (snd r1) ''alice'' = Some p1" and b1: "balance p1 = 800"
    using assms by (simp add: c1 charge_creates not_inherited_alice)
  have c2: "r2 = payout t2 t3 ''alice'' (orDefault (trim g2) ''unknown'') 50
                   (orDefault (trim d2) ''game payout'') (snd r1)"
    by (simp add: r2_def post_game_payout_def trim_alice parse_50)
  have f2: "fst r2 = Reply 200 (NewBalance 850)"
    using s1 b1 by (simp add: c2 payout_present)
  obtain p2 where s2: "stored (snd r2) ''alice'' = Some p2" and b2: "balance p2 = 850"
    using s1 b1 by (simp add: c2 payout_present)
  have c3: "r3 = charge t4 t5 ''alice'' (orDefault (trim g3) ''unknown'') 1000
                   (orDefault (trim d3) ''game charge'') (snd r2)"
    by (simp add: r3_def post_game_charge_def trim_alice parse_1000)
  have f3: "r3 = (Reply 200 (Failure ''INSUFFICIENT_FUNDS''), snd r2)"
    using s2 b2 by (simp add: c3 charge_present)
  show ?thesis
    unfolding Let_def r1_def [symmetric] r2_def [symmetric] r3_def [symmetric]
    using f1 s1 b1 f2 s2 b2 f3 by simp
qed

theorem alice_scenario_witness:
  "stored fresh ''alice'' = None \<and>
   (let r1 = post_game_charge ''t0'' ''t1'' (Text ''alice'') (Text ''slots'') ''200'' (Text ''spin'') fresh;
        r2 = post_game_payout ''t2'' ''t3'' (Text ''alice'') (Text ''slots'') ''50'' (Text ''win'') (snd r1);
        r3 = post_game_charge ''t4'' ''t5'' (Text ''alice'') (Text ''slots'') ''1000'' (Text ''spin'') (snd r2)
    in fst r1 = Reply 200 (NewBalance 800) \<and>
       map_option balance (stored (snd r1) ''alice'') = Some 800 \<and>
       fst r2 = Reply 200 (NewBalance 850) \<and>
       map_option balance (stored (snd r2) ''alice'') = Some 850 \<and>
       fst r3 = Reply 200 (Failure ''INSUFFICIENT_FUNDS'') \<and>
       map_option balance (stored (snd r3) ''alice'') = Some 850 \<and>
       snd r3 = snd r2)"
proof -
  have a: "stored fresh ''alice'' = None"
    by (simp add: stored_def fresh_def)
  show ?thesis
    using a alice_scenario [OF a] by simp
qed

section \<open>Validation failures and the refusal (C8)\<close>

subsection \<open>The route handlers, case by case\<close>

lemma charge_reply_failure:
  "fst (charge t0 t u g a d w) = Reply s (Failure e) \<Longrightarrow> s = 200 \<and> e = ''INSUFFICIENT_FUNDS''"
  by (auto simp: charge_def case_prod_beta Let_def split: handle.splits if_splits)

lemma payout_no_failure: "fst (payout t0 t u g a d w) \<noteq> Reply s (Failure e)"
  by (auto simp: payout_def case_prod_beta Let_def split: handle.splits)

lemma recordSave_no_failure: "fst (recordSave t0 t u b w) \<noteq> Reply s (Failure e)"
  by (auto simp: recordSave_def case_prod_beta Let_def split: handle.splits)

lemma adminSetBalance_no_failure: "fst (adminSetBalance t0 t u b n w) \<noteq> Reply s (Failure e)"
  by (auto simp: adminSetBalance_def case_prod_beta Let_def split: handle.splits)



lemma post_game_charge_cases:
  assumes "trimmed uf = Some u" "trimmed gf = Some g" "trimmed df = Some d"
  shows "post_game_charge t0 t uf gf af df w =
     (if u = [] then (Reply 400 (Failure ''USERNAME_REQUIRED''), w)
      else if bad_amount af then (Reply 400 (Failure ''INVALID_AMOUNT''), w)
      else charge t0 t u (orDefault g ''unknown'') (the (parseInt10 af))
             (orDefault d ''game charge'') w)"
  using assms
  by (simp add: post_game_charge_def bad_amount_def parseInteger_parseInt10 Let_def
      split: option.splits)

lemma post_game_payout_cases:
  assumes "trimmed uf = Some u" "trimmed gf = Some g" "trimmed df = Some d"
  shows "post_game_payout t0 t uf gf af df w =
     (if u = [] then (Reply 400 (Failure ''USERNAME_REQUIRED''), w)
      else if bad_amount af then (Reply 400 (Failure ''INVALID_AMOUNT''), w)
      else payout t0 t u (orDefault g ''unknown'') (the (parseInt10 af))
             (orDefault d ''game payout'') w)"
  using assms
  by (simp add: post_game_payout_def bad_amount_def parseInteger_parseInt10 Let_def
      split: option.splits)

lemma post_profile_save_cases:
  assumes "trimmed uf = Some u"
  shows "post_profile_save t0 t uf bf w =
     (if u = [] then (Reply 400 (Failure ''USERNAME_REQUIRED''), w)
      else if bad_balance bf then (Reply 400 (Failure ''INVALID_BALANCE''), w)
      else recordSave t0 t u (the (parseInt10 bf)) w)"
  using assms
  by (simp add: post_profile_save_def bad_balance_def parseInteger_parseInt10 Let_def
      split: option.splits)

lemma post_admin_set_balance_cases:
  assumes "trimmed uf = Some u" "trimmed nf = Some n"
  shows "post_admin_set_balance t0 t uf bf nf w =
     (if u = [] then (Reply 400 (Failure ''USERNAME_REQUIRED''), w)
      else if bad_balance bf then (Reply 400 (Failure ''INVALID_BALANCE''), w)
      else adminSetBalance t0 t u (the (parseInt10 bf))
             (orDefault n ''admin adjustment'') w)"
  using assms
  by (simp add: post_admin_set_balance_def bad_balance_def parseInteger_parseInt10 Let_def
      split: option.splits)



lemma trim_bob: "trim ''bob'' = ''bob''"
  by (simp add: parse_defs)


subsection \<open>The claim\<close>




section \<open>Numbers are validated by their prefix (C10)\<close>

lemma isDigit_not_space: "isDigit c \<Longrightarrow> \<not> isWhiteSpace c"
  by (auto simp: isDigit_def isWhiteSpace_def)

lemma isDigit_not_sign: "isDigit c \<Longrightarrow> c \<noteq> CHR ''-'' \<and> c \<noteq> CHR ''+''"
  by (auto simp: isDigit_def)

lemma takeWhile_digits:
  assumes "\<forall>c \<in> set ds. isDigit c" "rest = [] \<or> \<not> isDigit (hd rest)"
  shows "takeWhile isDigit (ds @ rest) = ds"
proof -
  have "takeWhile isDigit rest = []"
    using assms(2) by (cases rest) auto
  with assms(1) show ?thesis
    by (simp add: takeWhile_append2)
qed

lemma parseInt10_prefix:
  assumes "ds \<noteq> []" "\<forall>c \<in> set ds. isDigit c" "rest = [] \<or> \<not> isDigit (hd rest)"
  shows "parseInt10 (ds @ rest) = Some (decimal ds)"
proof -
  obtain c cs where ds: "ds = c # cs"
    using assms(1) by (cases ds) auto
  with assms(2) have c: "isDigit c" by simp
  have t: "takeWhile isDigit (c # cs @ rest) = c # cs"
    using takeWhile_digits [OF assms(2,3)] ds by simp
  show ?thesis
    using c isDigit_not_space [OF c] isDigit_not_sign [OF c] t
    by (simp add: parseInt10_def ds Let_def del: takeWhile.simps)
qed

lemma charge_never_invalid_amount:
  "fst (charge t0 t u g a d w) \<noteq> Reply 400 (Failure ''INVALID_AMOUNT'')"
  using charge_reply_failure [of t0 t u g a d w 400 "''INVALID_AMOUNT''"] by auto

lemma bad_balance_iff:
  "bad_balance v \<longleftrightarrow> parseInt10 v = None \<or> (\<exists>n. parseInt10 v = Some n \<and> n < 0)"
  by (auto simp: bad_balance_def split: option.splits)

lemma bad_amount_iff:
  "bad_amount v \<longleftrightarrow> parseInt10 v = None \<or> (\<exists>n. parseInt10 v = Some n \<and> n \<le> 0)"
  by (auto simp: bad_amount_def split: option.splits)

text \<open>
  C10, as stated: a balance or amount is rejected if and only if \<^verbatim>\<open>parseInt\<close> of it is
  \<^verbatim>\<open>NaN\<close>. The handlers also reject numbers out of range: \<open>-5\<close> parses to -5 and is
  rejected as a balance, \<open>0\<close> parses to 0 and is rejected as an amount.
\<close>

theorem negative_number_rejected_counterexample:
  "parseInt10 ''-5'' = Some (- 5) \<and>
   post_profile_save ''t0'' ''t1'' (Text ''alice'') ''-5'' fresh
     = (Reply 400 (Failure ''INVALID_BALANCE''), fresh) \<and>
   parseInt10 ''0'' = Some 0 \<and>
   post_game_charge ''t0'' ''t1'' (Text ''alice'') (Text ''slots'') ''0'' (Text ''spin'') fresh
     = (Reply 400 (Failure ''INVALID_AMOUNT''), fresh)"
  by (simp add: post_profile_save_def post_game_charge_def parse_defs)

text \<open>
  C10, amended: in a request with a user name, whose text fields are strings or falsy, a
  balance is rejected with \<^verbatim>\<open>INVALID_BALANCE\<close> if and only if \<^verbatim>\<open>parseInt\<close> of it in base
  10 is \<^verbatim>\<open>NaN\<close> or negative, an amount with \<^verbatim>\<open>INVALID_AMOUNT\<close> if and only if it is
  \<^verbatim>\<open>NaN\<close> or not positive. A value that is not rejected is accepted, and when it is an
  exact number the operation runs on the parsed integer. \<^verbatim>\<open>parseInt\<close> reads a prefix: a
  string that starts with decimal digits followed by something that is not a digit
  parses to the number the digits denote when that is an exact number, so \<open>12.9\<close> is
  taken as 12 and \<open>100abc\<close> as 100. Beyond the exact numbers \<^verbatim>\<open>parseInt\<close> returns a
  double near the integer, about which nothing is stated here.
\<close>

theorem numeric_validation_by_prefix:
  "(trimmed uf = Some u \<and> u \<noteq> [] \<longrightarrow>
      (fst (post_profile_save t0 t uf v w) = Reply 400 (Failure ''INVALID_BALANCE'') \<longleftrightarrow>
         parseInt10 v = None \<or> (\<exists>n. parseInt10 v = Some n \<and> n < 0))) \<and>
   (trimmed uf = Some u \<and> u \<noteq> [] \<and> trimmed nf = Some nt \<longrightarrow>
      (fst (post_admin_set_balance t0 t uf v nf w) = Reply 400 (Failure ''INVALID_BALANCE'') \<longleftrightarrow>
         parseInt10 v = None \<or> (\<exists>n. parseInt10 v = Some n \<and> n < 0))) \<and>
   (trimmed uf = Some u \<and> u \<noteq> [] \<and> trimmed gf = Some g \<and> trimmed df = Some d \<longrightarrow>
      (fst (post_game_charge t0 t uf gf v df w) = Reply 400 (Failure ''INVALID_AMOUNT'') \<longleftrightarrow>
         parseInt10 v = None \<or> (\<exists>n. parseInt10 v = Some n \<and> n \<le> 0)) \<and>
      (fst (post_game_payout t0 t uf gf v df w) = Reply 400 (Failure ''INVALID_AMOUNT'') \<longleftrightarrow>
         parseInt10 v = None \<or> (\<exists>n. parseInt10 v = Some n \<and> n \<le> 0))) \<and>
   (trimmed uf = Some u \<and> u \<noteq> [] \<and> parseInt10 v = Some n \<and> 0 \<le> n \<and> exact_number n \<longrightarrow>
      post_profile_save t0 t uf v w = recordSave t0 t u n w) \<and>
   (trimmed uf = Some u \<and> u \<noteq> [] \<and> trimmed nf = Some nt \<and>
    parseInt10 v = Some n \<and> 0 \<le> n \<and> exact_number n \<longrightarrow>
      post_admin_set_balance t0 t uf v nf w =
        adminSetBalance t0 t u n (orDefault nt ''admin adjustment'') w) \<and>
   (trimmed uf = Some u \<and> u \<noteq> [] \<and> trimmed gf = Some g \<and> trimmed df = Some d \<and>
    parseInt10 v = Some n \<and> 0 < n \<and> exact_number n \<longrightarrow>
      post_game_charge t0 t uf gf v df w =
        charge t0 t u (orDefault g ''unknown'') n (orDefault d ''game charge'') w \<and>
      post_game_payout t0 t uf gf v df w =
        payout t0 t u (orDefault g ''unknown'') n (orDefault d ''game payout'') w) \<and>
   (ds \<noteq> [] \<and> (\<forall>c \<in> set ds. isDigit c) \<and> (rest = [] \<or> \<not> isDigit (hd rest)) \<and>
    exact_number (decimal ds) \<longrightarrow>
      parseInt10 (ds @ rest) = Some (decimal ds)) \<and>
   parseInt10 ''12.9'' = Some 12 \<and> parseInt10 ''100abc'' = Some 100 \<and>
   exact_number 12 \<and> exact_number 100"
proof (intro conjI impI)
  assume "trimmed uf = Some u \<and> u \<noteq> []"
  then show "fst (post_profile_save t0 t uf v w) = Reply 400 (Failure ''INVALID_BALANCE'') \<longleftrightarrow>
         parseInt10 v = None \<or> (\<exists>n. parseInt10 v = Some n \<and> n < 0)"
    by (simp add: post_profile_save_cases recordSave_no_failure bad_balance_iff)
next
  assume "trimmed uf = Some u \<and> u \<noteq> [] \<and> trimmed nf = Some nt"
  then show "fst (post_admin_set_balance t0 t uf v nf w)
           = Reply 400 (Failure ''INVALID_BALANCE'') \<longleftrightarrow>
         parseInt10 v = None \<or> (\<exists>n. parseInt10 v = Some n \<and> n < 0)"
    by (simp add: post_admin_set_balance_cases adminSetBalance_no_failure bad_balance_iff)
next
  assume h: "trimmed uf = Some u \<and> u \<noteq> [] \<and> trimmed gf = Some g \<and> trimmed df = Some d"
  then show "fst (post_game_charge t0 t uf gf v df w) = Reply 400 (Failure ''INVALID_AMOUNT'') \<longleftrightarrow>
         parseInt10 v = None \<or> (\<exists>n. parseInt10 v = Some n \<and> n \<le> 0)"
    by (simp add: post_game_charge_cases charge_never_invalid_amount bad_amount_iff)
  from h show "fst (post_game_payout t0 t uf gf v df w) = Reply 400 (Failure ''INVALID_AMOUNT'') \<longleftrightarrow>
         parseInt10 v = None \<or> (\<exists>n. parseInt10 v = Some n \<and> n \<le> 0)"
    by (simp add: post_game_payout_cases payout_no_failure bad_amount_iff)
next
  assume "trimmed uf = Some u \<and> u \<noteq> [] \<and> parseInt10 v = Some n \<and> 0 \<le> n \<and> exact_number n"
  then show "post_profile_save t0 t uf v w = recordSave t0 t u n w"
    by (simp add: post_profile_save_cases bad_balance_def)
next
  assume "trimmed uf = Some u \<and> u \<noteq> [] \<and> trimmed nf = Some nt \<and>
    parseInt10 v = Some n \<and> 0 \<le> n \<and> exact_number n"
  then show "post_admin_set_balance t0 t uf v nf w =
        adminSetBalance t0 t u n (orDefault nt ''admin adjustment'') w"
    by (simp add: post_admin_set_balance_cases bad_balance_def)
next
  assume a: "trimmed uf = Some u \<and> u \<noteq> [] \<and> trimmed gf = Some g \<and> trimmed df = Some d \<and>
    parseInt10 v = Some n \<and> 0 < n \<and> exact_number n"
  then show "post_game_charge t0 t uf gf v df w =
        charge t0 t u (orDefault g ''unknown'') n (orDefault d ''game charge'') w"
    by (simp add: post_game_charge_cases bad_amount_def)
  from a show "post_game_payout t0 t uf gf v df w =
        payout t0 t u (orDefault g ''unknown'') n (orDefault d ''game payout'') w"
    by (simp add: post_game_payout_cases bad_amount_def)
next
  assume "ds \<noteq> [] \<and> (\<forall>c \<in> set ds. isDigit c) \<and> (rest = [] \<or> \<not> isDigit (hd rest)) \<and>
    exact_number (decimal ds)"
  then show "parseInt10 (ds @ rest) = Some (decimal ds)"
    by (simp add: parseInt10_prefix)
next
  show "parseInt10 ''12.9'' = Some 12" by (simp add: parse_defs)
  show "parseInt10 ''100abc'' = Some 100" by (simp add: parse_defs)
  show "exact_number 12" by (simp add: exact_number_def)
  show "exact_number 100" by (simp add: exact_number_def)
qed

theorem numeric_validation_by_prefix_witness:
  "fst (post_profile_save ''t0'' ''t1'' (Text ''bob'') ''-5'' bob_world)
     = Reply 400 (Failure ''INVALID_BALANCE'') \<and>
   fst (post_admin_set_balance ''t0'' ''t1'' (Text ''bob'') ''abc'' (Text ''fix'') bob_world)
     = Reply 400 (Failure ''INVALID_BALANCE'') \<and>
   fst (post_game_charge ''t0'' ''t1'' (Text ''bob'') (Text ''slots'') ''0'' (Text ''win'') bob_world)
     = Reply 400 (Failure ''INVALID_AMOUNT'') \<and>
   fst (post_game_payout ''t0'' ''t1'' (Text ''bob'') (Text ''slots'') ''abc'' (Text ''win'') bob_world)
     = Reply 400 (Failure ''INVALID_AMOUNT'') \<and>
   post_profile_save ''t0'' ''t1'' (Text ''bob'') ''12.9'' bob_world
     = recordSave ''t0'' ''t1'' ''bob'' 12 bob_world \<and>
   post_admin_set_balance ''t0'' ''t1'' (Text ''bob'') ''12.9'' (Text ''fix'') bob_world
     = adminSetBalance ''t0'' ''t1'' ''bob'' 12 ''fix'' bob_world \<and>
   post_game_payout ''t0'' ''t1'' (Text ''bob'') (Text ''slots'') ''100abc'' (Text ''win'') bob_world
     = payout ''t0'' ''t1'' ''bob'' ''slots'' 100 ''win'' bob_world \<and>
   parseInt10 (''12'' @ ''.9'') = Some 12"
proof -
  have u: "trimmed (Text ''bob'') = Some ''bob''" "''bob'' \<noteq> []"
    "trimmed (Text ''fix'') = Some ''fix''" "trimmed (Text ''slots'') = Some ''slots''"
    "trimmed (Text ''win'') = Some ''win''"
    by (simp_all add: parse_defs)
  have p: "parseInt10 ''-5'' = Some (- 5)" "parseInt10 ''abc'' = None"
    "parseInt10 ''0'' = Some 0" "parseInt10 ''12.9'' = Some 12"
    "parseInt10 ''100abc'' = Some 100"
    by (simp_all add: parse_defs)
  have o: "orDefault ''slots'' ''unknown'' = ''slots''"
    "orDefault ''win'' ''game payout'' = ''win''"
    "orDefault ''fix'' ''admin adjustment'' = ''fix''"
    by (simp_all add: orDefault_def)
  have d: "''12'' \<noteq> [] \<and> (\<forall>c \<in> set ''12''. isDigit c) \<and>
           (''.9'' = [] \<or> \<not> isDigit (hd ''.9'')) \<and> exact_number (decimal ''12'')"
    "decimal ''12'' = 12"
    by (simp_all add: isDigit_def decimal_def digitValue_def exact_number_def)
  note th = numeric_validation_by_prefix
      [where uf = "Text ''bob''" and u = "''bob''" and nf = "Text ''fix''" and nt = "''fix''"
         and gf = "Text ''slots''" and g = "''slots''" and df = "Text ''win''" and d = "''win''"
         and ?t0.0 = "''t0''" and t = "''t1''" and w = bob_world
         and ds = "''12''" and rest = "''.9''"]
  have 1: "fst (post_profile_save ''t0'' ''t1'' (Text ''bob'') ''-5'' bob_world)
             = Reply 400 (Failure ''INVALID_BALANCE'')"
    using u p th [where v = "''-5''" and n = 0] by simp
  have 2: "fst (post_admin_set_balance ''t0'' ''t1'' (Text ''bob'') ''abc'' (Text ''fix'') bob_world)
             = Reply 400 (Failure ''INVALID_BALANCE'')"
    and 4: "fst (post_game_payout ''t0'' ''t1'' (Text ''bob'') (Text ''slots'') ''abc'' (Text ''win'')
                  bob_world) = Reply 400 (Failure ''INVALID_AMOUNT'')"
    using u p th [where v = "''abc''" and n = 0] by simp_all
  have 3: "fst (post_game_charge ''t0'' ''t1'' (Text ''bob'') (Text ''slots'') ''0'' (Text ''win'')
                  bob_world) = Reply 400 (Failure ''INVALID_AMOUNT'')"
    using u p th [where v = "''0''" and n = 0] by simp
  have 5: "post_profile_save ''t0'' ''t1'' (Text ''bob'') ''12.9'' bob_world
             = recordSave ''t0'' ''t1'' ''bob'' 12 bob_world"
    and 6: "post_admin_set_balance ''t0'' ''t1'' (Text ''bob'') ''12.9'' (Text ''fix'') bob_world
             = adminSetBalance ''t0'' ''t1'' ''bob'' 12 ''fix'' bob_world"
    using u p o th [where v = "''12.9''" and n = 12] by simp_all
  have 7: "post_game_payout ''t0'' ''t1'' (Text ''bob'') (Text ''slots'') ''100abc'' (Text ''win'')
             bob_world = payout ''t0'' ''t1'' ''bob'' ''slots'' 100 ''win'' bob_world"
    using u p o th [where v = "''100abc''" and n = 100] by simp
  have 8: "parseInt10 (''12'' @ ''.9'') = Some 12"
    using d th [where v = "''100abc''" and n = 100] by simp
  from 1 2 3 4 5 6 7 8 show ?thesis by (intro conjI)
qed

section \<open>User names found on the prototype chain (C5, C6, C9)\<close>

text \<open>
  \<^verbatim>\<open>getOrCreatePlayer\<close> and the delete route test \<^verbatim>\<open>data.players[username]\<close> for
  truthiness. For a user name such as \<open>constructor\<close>, \<open>toString\<close> or \<open>__proto__\<close>
  the test succeeds on every store, because the object inherits a property of that name:
  the handlers then take the inherited function, or \<^verbatim>\<open>Object.prototype\<close> itself, for the
  player's record. No record is ever created for such a name, the two reading routes
  answer without balance and history, and save, payout and admin set-balance end in a
  \<^verbatim>\<open>TypeError\<close> at \<^verbatim>\<open>player.history.push\<close>, after having assigned \<^verbatim>\<open>balance\<close> on the
  inherited object. The three claims below hold for every other user name (lemmas
  \<open>adminDelete_twice\<close>, \<open>recreated_after_delete\<close>, \<open>adminSetBalance_sets\<close>,
  \<open>getUserDetail_present\<close>, \<open>getUserDetail_creates\<close>) and fail for these.
\<close>

lemma trim_constructor: "trim ''constructor'' = ''constructor''"
  by (simp add: parse_defs)

lemma inherited_constructor: "inherited w ''constructor''"
  by (simp add: inherited_def object_prototype_functions_def)

subsection \<open>Deleting and referencing again (C5)\<close>

lemma adminDelete_succeeds: "fst (adminDelete u w) = Reply 200 Done"
  by (simp add: adminDelete_eq)

lemma adminDelete_removes:
  "stored (snd (adminDelete u w)) = (stored w)(u := None)"
proof (cases "stored w u")
  case None
  then have "(stored w)(u := None) = stored w" by (simp add: fun_upd_idem)
  then show ?thesis by (simp add: adminDelete_eq stored_loadData)
next
  case (Some p)
  then show ?thesis by (simp add: adminDelete_eq truthy_players_get)
qed

lemma adminDelete_twice:
  "fst (adminDelete u w) = Reply 200 Done \<and>
   fst (adminDelete u (snd (adminDelete u w))) = Reply 200 Done \<and>
   stored (snd (adminDelete u (snd (adminDelete u w)))) = stored (snd (adminDelete u w))"
  by (simp add: adminDelete_succeeds adminDelete_removes)

lemma inherited_adminDelete [simp]: "inherited (snd (adminDelete u w)) v = inherited w v"
  by (simp add: adminDelete_eq)

lemma recreated_after_delete:
  assumes "\<not> inherited w u"
  shows "fst (getProfile t0 u (snd (adminDelete u w))) = Reply 200 (Profile u (Num 1000)) \<and>
         stored (snd (getProfile t0 u (snd (adminDelete u w)))) u = Some (new_player t0)"
proof -
  have "stored (snd (adminDelete u w)) u = None"
    by (simp add: adminDelete_removes)
  moreover have "\<not> inherited (snd (adminDelete u w)) u"
    using assms by simp
  ultimately show ?thesis
    by (simp add: getProfile_creates)
qed

text \<open>
  C5 says that a user name referenced again after its deletion is recreated with the
  default profile. For \<open>constructor\<close> both deletions answer \<^verbatim>\<open>{ok:true}\<close>, and the
  profile request that follows answers \<^verbatim>\<open>{ok:true, username}\<close> with an undefined balance
  and creates no record.
\<close>

theorem delete_constructor_not_recreated:
  "fst (post_admin_delete_user (Text ''constructor'') fresh) = Reply 200 Done \<and>
   fst (post_admin_delete_user (Text ''constructor'')
          (snd (post_admin_delete_user (Text ''constructor'') fresh))) = Reply 200 Done \<and>
   fst (get_profile ''t0'' (Text ''constructor'')
          (snd (post_admin_delete_user (Text ''constructor'')
             (snd (post_admin_delete_user (Text ''constructor'') fresh)))))
     = Reply 200 (Profile ''constructor'' Undefined) \<and>
   stored (snd (get_profile ''t0'' (Text ''constructor'')
          (snd (post_admin_delete_user (Text ''constructor'')
             (snd (post_admin_delete_user (Text ''constructor'') fresh)))))) ''constructor'' = None"
  by (simp add: post_admin_delete_user_def get_profile_def trim_constructor adminDelete_def
      getProfile_def run_defs)

subsection \<open>Admin set-balance (C6)\<close>

lemma adminSetBalance_sets:
  assumes "stored w u \<noteq> None \<or> \<not> inherited w u"
  shows "fst (adminSetBalance t0 t u b n w) = Reply 200 (NewBalance b) \<and>
         (\<exists>p. stored (snd (adminSetBalance t0 t u b n w)) u = Some p \<and> balance p = b \<and>
              last (history p) =
                \<lparr>ts = t, game = ''admin-adjust'',
                  delta = b - (case stored w u of None \<Rightarrow> 1000 | Some q \<Rightarrow> balance q),
                  desc = n\<rparr>)"
  using assms
  by (cases "stored w u") (simp_all add: adminSetBalance_present adminSetBalance_creates)

lemma adminSetBalance_1500_on_1000:
  assumes "stored w u = Some p" "balance p = 1000"
  shows "map_option (\<lambda>q. delta (last (history q)))
           (stored (snd (adminSetBalance t0 t u 1500 n w)) u) = Some 500"
  using assms by (simp add: adminSetBalance_present)

text \<open>
  C6 says that every admin set-balance with a non-negative balance appends an
  \<open>admin-adjust\<close> entry and leaves the balance at the new value. For \<open>constructor\<close> the
  request ends in a \<^verbatim>\<open>TypeError\<close>: no entry is appended, no record exists, nothing is
  written, and 1500 has been assigned to \<^verbatim>\<open>Object.balance\<close>.
\<close>

theorem set_balance_constructor_throws:
  "fst (post_admin_set_balance ''t0'' ''t1'' (Text ''constructor'') ''1500'' (Text ''gift'') fresh) = TypeError \<and>
   stored (snd (post_admin_set_balance ''t0'' ''t1'' (Text ''constructor'') ''1500'' (Text ''gift'') fresh))
     ''constructor'' = None \<and>
   writes (snd (post_admin_set_balance ''t0'' ''t1'' (Text ''constructor'') ''1500'' (Text ''gift'') fresh)) = 0 \<and>
   builtin_balance (snd (post_admin_set_balance ''t0'' ''t1'' (Text ''constructor'') ''1500'' (Text ''gift'') fresh))
     ''constructor'' = Num 1500"
  by (simp add: post_admin_set_balance_def trim_constructor adminSetBalance_def parse_defs run_defs)

subsection \<open>User detail (C9)\<close>

text \<open>
  C9 says that the user-detail route creates the record of every user name the store
  does not hold and returns it with its history. For \<open>constructor\<close> it answers with an
  undefined balance and an undefined history, and the store holds no such record
  afterwards.
\<close>

theorem user_detail_constructor_not_created:
  "fst (get_admin_user_detail ''t0'' (Text ''constructor'') fresh)
     = Reply 200 (Detail ''constructor'' Undefined None) \<and>
   stored fresh ''constructor'' = None \<and>
   stored (snd (get_admin_user_detail ''t0'' (Text ''constructor'') fresh)) ''constructor'' = None"
  by (simp add: get_admin_user_detail_def trim_constructor getUserDetail_def run_defs)

end
